theory Spec2Isabelle
  imports Complex_Main
begin

section \<open>commah: mass accretion histories and NFW concentrations\<close>

text \<open>
  A shallow embedding of \<^verbatim>\<open>commah/commah.py\<close>. Python floats are idealised as
  \<^typ>\<open>real\<close>: \<^verbatim>\<open>x**n\<close> with an integer literal \<open>n\<close> is \<open>x ^ n\<close>, \<^verbatim>\<open>x**y\<close>
  with a float exponent is \<open>x powr y\<close>, \<^verbatim>\<open>np.log\<close> is \<open>ln\<close>, \<^verbatim>\<open>np.log10\<close> is
  \<open>log 10\<close>. Where numpy would produce \<^verbatim>\<open>inf\<close> or \<^verbatim>\<open>nan\<close> (a division by zero,
  a root or logarithm of a negative number) the model has the value of HOL's total
  functions; the theorems exclude those inputs by hypothesis wherever the conclusion
  depends on them. Everything the source raises is a value of \<open>error\<close>, and a function
  that can raise returns \<open>error + 'a\<close>.

  Output to a file and the \<^verbatim>\<open>verbose\<close> messages are left out
  (\<^verbatim>\<open>filename=None\<close>, \<^verbatim>\<open>verbose=None\<close>).
\<close>

subsection \<open>Values, errors, dictionaries\<close>

datatype error =
    AssertionError
  | KeyError
  | IndexError
  | ZeroDivisionError
  | UnboundLocalError
  | TypeError
  | AttributeError
  | ValueError

text \<open>
  \<open>ValueError\<close> is what \<^verbatim>\<open>brentq\<close> raises when the function has the same sign at both
  ends of the bracket; \<open>UnboundLocalError\<close> is the use of a variable that no branch has
  assigned.
\<close>

text \<open>
  A Python dictionary with string keys. The values of a cosmology dictionary are
  numbers; \<^verbatim>\<open>True\<close> and \<^verbatim>\<open>False\<close> are the integers 1 and 0, as they are in Python.
\<close>

type_synonym dict = "string \<rightharpoonup> real"

text \<open>An argument that is a scalar or a sequence (\<^verbatim>\<open>zi\<close>, \<^verbatim>\<open>Mi\<close>, \<^verbatim>\<open>z\<close>).\<close>

datatype pyinput = Scalar real | Seq "real list"

text \<open>\<^verbatim>\<open>np.array(x, ndmin=1, dtype=float)\<close>: a scalar becomes an array of length one.\<close>

fun np_array :: "pyinput \<Rightarrow> real list" where
  "np_array (Scalar x) = [x]"
| "np_array (Seq xs) = xs"

text \<open>\<^verbatim>\<open>np.ones_like\<close>.\<close>

definition ones_like :: "real list \<Rightarrow> real list" where
  "ones_like xs = map (\<lambda>_. 1) xs"

text \<open>\<^verbatim>\<open>_izip\<close>: tuples of the two iterables, up to the end of the shorter one.\<close>

fun izip :: "'a list \<Rightarrow> 'b list \<Rightarrow> ('a \<times> 'b) list" where
  "izip (x # xs) (y # ys) = (x, y) # izip xs ys"
| "izip _ _ = []"

subsection \<open>Input reconciliation: \<^verbatim>\<open>_checkinput\<close>\<close>

text \<open>
  \<^verbatim>\<open>_checkinput\<close> returns \<^verbatim>\<open>-1\<close> (\<open>Ambiguous\<close>) or the tuple
  \<^verbatim>\<open>(zi, Mi, z, zi.size, Mi.size, lenzout)\<close>. The argument \<^verbatim>\<open>z=False\<close> is \<open>None\<close>.
\<close>

datatype checked =
    Ambiguous
  | Checked "real list" "real list" "real list option" nat nat nat

text \<open>
  The end of \<^verbatim>\<open>_checkinput\<close>, after the two arrays are aligned: the output redshifts
  and the sizes.
\<close>

definition checkinput_z :: "real list \<Rightarrow> real list \<Rightarrow> pyinput option \<Rightarrow> checked" where
  "checkinput_z zi Mi z =
     (case z of
        None \<Rightarrow> Checked zi Mi None (length zi) (length Mi) 1
      | Some zz \<Rightarrow>
          (let z' = np_array zz
           in Checked zi Mi (Some z') (length zi) (length Mi) (length z')))"

definition checkinput :: "pyinput \<Rightarrow> pyinput \<Rightarrow> pyinput option \<Rightarrow> checked" where
  "checkinput zi0 Mi0 z =
     (let zi = np_array zi0; Mi = np_array Mi0
      in if length zi > 1 \<and> length Mi > 1 then
           (if length zi \<noteq> length Mi then Ambiguous else checkinput_z zi Mi z)
         else if length zi = 1 \<and> length Mi > 1 then
           checkinput_z (map (\<lambda>one. one * zi ! 0) (ones_like Mi)) Mi z
         else if length Mi = 1 \<and> length zi > 1 then
           checkinput_z zi (map (\<lambda>one. one * Mi ! 0) (ones_like zi)) z
         else checkinput_z zi Mi z)"

subsection \<open>External collaborators\<close>

text \<open>
  The numerical libraries the module calls are not part of the repository; the model
  takes them as parameters. \<open>quad\<close> is the value \<^verbatim>\<open>y\<close> of
  \<^verbatim>\<open>scipy.integrate.quad(f, a, b)\<close>; \<open>brentq\<close> is
  \<^verbatim>\<open>scipy.optimize.brentq(f, a, b)\<close>, which returns a root or raises;
  \<open>mass_to_radius\<close>, \<open>radius_to_mass\<close> and \<open>sigma_r\<close> (its first component) are
  \<^verbatim>\<open>cosmolopy.perturbation\<close>'s, called with \<^verbatim>\<open>**cosmo\<close>; \<open>set_omega_k_0\<close> is
  the content of the dictionary after \<^verbatim>\<open>cosmolopy.distance.set_omega_k_0\<close>, which
  works on the dictionary it is given and returns it.
\<close>

record ext =
  quad :: "(real \<Rightarrow> real) \<Rightarrow> real \<Rightarrow> real \<Rightarrow> real"
  brentq :: "(real \<Rightarrow> real) \<Rightarrow> real \<Rightarrow> real \<Rightarrow> error + real"
  mass_to_radius :: "real \<Rightarrow> dict \<Rightarrow> real"
  radius_to_mass :: "real \<Rightarrow> dict \<Rightarrow> real"
  sigma_r :: "real \<Rightarrow> real \<Rightarrow> dict \<Rightarrow> real"
  set_omega_k_0 :: "dict \<Rightarrow> dict"

subsection \<open>Growth factor\<close>

definition zmax :: real where
  "zmax = 200"

text \<open>The integrand of \<^verbatim>\<open>_int_growth\<close>, the lambda handed to \<^verbatim>\<open>quad\<close>.\<close>

definition growth_integrand :: "real \<Rightarrow> real \<Rightarrow> real \<Rightarrow> real" where
  "growth_integrand omega_M_0 omega_lambda_0 z =
     (1 + z) / (omega_M_0 * (1 + z) ^ 3 + omega_lambda_0) powr 1.5"

definition int_growth :: "ext \<Rightarrow> real \<Rightarrow> dict \<Rightarrow> error + real" where
  "int_growth ext z cosmo =
     (if \<not> z < zmax then Inl AssertionError
      else case cosmo ''omega_M_0'' of
        None \<Rightarrow> Inl KeyError
      | Some om \<Rightarrow>
         (case cosmo ''omega_lambda_0'' of
            None \<Rightarrow> Inl KeyError
          | Some ol \<Rightarrow> Inr (quad ext (growth_integrand om ol) z zmax)))"

definition growthfactor :: "ext \<Rightarrow> real \<Rightarrow> bool \<Rightarrow> dict \<Rightarrow> error + real" where
  "growthfactor ext z normalise cosmo =
     (case cosmo ''omega_M_0'' of
        None \<Rightarrow> Inl KeyError
      | Some om \<Rightarrow>
         (case cosmo ''omega_lambda_0'' of
            None \<Rightarrow> Inl KeyError
          | Some ol \<Rightarrow>
             (let H = sqrt (om * (1 + z) ^ 3 + ol)
              in case int_growth ext z cosmo of
                   Inl e \<Rightarrow> Inl e
                 | Inr y \<Rightarrow>
                    (let growthval = H * y
                     in if normalise then
                          (case int_growth ext 0 cosmo of
                             Inl e \<Rightarrow> Inl e
                           | Inr y0 \<Rightarrow> Inr (growthval / y0))
                        else Inr growthval))))"

definition deriv_growth :: "ext \<Rightarrow> real \<Rightarrow> dict \<Rightarrow> error + real" where
  "deriv_growth ext z cosmo =
     (case cosmo ''omega_M_0'' of
        None \<Rightarrow> Inl KeyError
      | Some om \<Rightarrow>
         (case cosmo ''omega_lambda_0'' of
            None \<Rightarrow> Inl KeyError
          | Some ol \<Rightarrow>
             (let inv_h = (om * (1 + z) ^ 3 + ol) powr (- 0.5);
                  fz = (1 + z) * inv_h ^ 3
              in case growthfactor ext z True cosmo of
                   Inl e \<Rightarrow> Inl e
                 | Inr g \<Rightarrow>
                    (case int_growth ext z cosmo of
                       Inl e \<Rightarrow> Inl e
                     | Inr y \<Rightarrow>
                        Inr (g * inv_h ^ 2 * 1.5 * om * (1 + z) ^ 2 - fz * g / y)))))"

subsection \<open>Concentration residual and formation redshift\<close>

definition minimize_c ::
  "real \<Rightarrow> real \<Rightarrow> real \<Rightarrow> real \<Rightarrow> real \<Rightarrow> real \<Rightarrow> real \<Rightarrow> real" where
  "minimize_c c z a_tilde b_tilde Ascaling omega_M_0 omega_lambda_0 =
     (let Y1 = ln 2 - 0.5;
          Yc = ln (1 + c) - c / (1 + c);
          f1 = Y1 / Yc;
          rho_2 = 200 * c ^ 3 * Y1 / Yc;
          zf = (((1 + z) ^ 3 + omega_lambda_0 / omega_M_0) * (rho_2 / Ascaling)
                 - omega_lambda_0 / omega_M_0) powr (1 / 3) - 1;
          f2 = (1 + zf - z) powr a_tilde * exp ((zf - z) * b_tilde)
      in f1 - f2)"

definition formationz :: "real \<Rightarrow> real \<Rightarrow> real \<Rightarrow> real \<Rightarrow> real \<Rightarrow> real" where
  "formationz c z Ascaling omega_M_0 omega_lambda_0 =
     (let Y1 = ln 2 - 0.5;
          Yc = ln (1 + c) - c / (1 + c);
          rho_2 = 200 * (c ^ 3) * Y1 / Yc
      in (((1 + z) ^ 3 + omega_lambda_0 / omega_M_0) * (rho_2 / Ascaling)
            - omega_lambda_0 / omega_M_0) powr (1 / 3) - 1)"

subsection \<open>Growth-rate indices and the accretion rate\<close>

definition calc_ab :: "ext \<Rightarrow> real \<Rightarrow> real \<Rightarrow> dict \<Rightarrow> error + (real \<times> real)" where
  "calc_ab ext zi Mi cosmo =
     (let zf = - 0.0064 * (log 10 Mi) ^ 2 + 0.0237 * log 10 Mi + 1.8837;
          q = 4.137 * zf powr (- 0.9476);
          R_Mass = mass_to_radius ext Mi cosmo;
          Rq_Mass = mass_to_radius ext (Mi / q) cosmo;
          sig = sigma_r ext R_Mass 0 cosmo;
          sigq = sigma_r ext Rq_Mass 0 cosmo;
          f = (sigq ^ 2 - sig ^ 2) powr (- 0.5)
      in case deriv_growth ext zi cosmo of
           Inl e \<Rightarrow> Inl e
         | Inr dg \<Rightarrow>
            (case growthfactor ext zi True cosmo of
               Inl e \<Rightarrow> Inl e
             | Inr g \<Rightarrow>
                (let a_tilde = (sqrt (2 / pi) * 1.686 * dg / g ^ 2 + 1) * f;
                     b_tilde = - f
                 in Inr (a_tilde, b_tilde))))"

definition acc_rate :: "ext \<Rightarrow> real \<Rightarrow> real \<Rightarrow> real \<Rightarrow> dict \<Rightarrow> error + (real \<times> real)" where
  "acc_rate ext z zi Mi cosmo =
     (case calc_ab ext zi Mi cosmo of
        Inl e \<Rightarrow> Inl e
      | Inr (a_tilde, b_tilde) \<Rightarrow>
         (let Mz = Mi * (1 + z - zi) powr a_tilde * exp (b_tilde * (z - zi))
          in case cosmo ''h'' of
               None \<Rightarrow> Inl KeyError
             | Some h \<Rightarrow>
                (case cosmo ''omega_M_0'' of
                   None \<Rightarrow> Inl KeyError
                 | Some om \<Rightarrow>
                    (case cosmo ''omega_lambda_0'' of
                       None \<Rightarrow> Inl KeyError
                     | Some ol \<Rightarrow>
                        (let dMdt = 71.6 * (Mz / 10 ^ 12) * (h / 0.7)
                                      * (- a_tilde / (1 + z - zi) - b_tilde) * (1 + z)
                                      * sqrt (om * (1 + z) ^ 3 + ol)
                         in Inr (dMdt, Mz))))))"

text \<open>
  \<^verbatim>\<open>MAH\<close> fills two arrays of the size of \<open>z\<close>, one entry per redshift step, in order;
  an exception of \<^verbatim>\<open>acc_rate\<close> ends the loop.
\<close>

fun MAH :: "ext \<Rightarrow> real list \<Rightarrow> real \<Rightarrow> real \<Rightarrow> dict \<Rightarrow> error + (real list \<times> real list)" where
  "MAH ext [] zi Mi cosmo = Inr ([], [])"
| "MAH ext (zval # z) zi Mi cosmo =
     (case acc_rate ext zval zi Mi cosmo of
        Inl e \<Rightarrow> Inl e
      | Inr (dMdt, Mz) \<Rightarrow>
         (case MAH ext z zi Mi cosmo of
            Inl e \<Rightarrow> Inl e
          | Inr (dMdt_array, Mz_array) \<Rightarrow> Inr (dMdt # dMdt_array, Mz # Mz_array)))"

subsection \<open>Concentration solver\<close>

text \<open>\<^verbatim>\<open>np.isclose(a, b)\<close> with its default tolerances.\<close>

definition isclose :: "real \<Rightarrow> real \<Rightarrow> bool" where
  "isclose a b \<longleftrightarrow> \<bar>a - b\<bar> \<le> 1 / 10 ^ 8 + 1 / 10 ^ 5 * \<bar>b\<bar>"

text \<open>The body of the loop of \<^verbatim>\<open>COM\<close>: the four values stored for one pair \<open>(zval, Mval)\<close>.\<close>

definition COM_row ::
  "ext \<Rightarrow> dict \<Rightarrow> real \<Rightarrow> real \<Rightarrow> error + (real \<times> real \<times> real \<times> real)" where
  "COM_row ext cosmo zval Mval =
     (case calc_ab ext zval Mval cosmo of
        Inl e \<Rightarrow> Inl e
      | Inr (a_tilde, b_tilde) \<Rightarrow>
         (case cosmo ''A_scaling'' of
            None \<Rightarrow> Inl KeyError
          | Some A \<Rightarrow>
             (case cosmo ''omega_M_0'' of
                None \<Rightarrow> Inl KeyError
              | Some om \<Rightarrow>
                 (case cosmo ''omega_lambda_0'' of
                    None \<Rightarrow> Inl KeyError
                  | Some ol \<Rightarrow>
                     (case brentq ext (\<lambda>c. minimize_c c zval a_tilde b_tilde A om ol) 2 1000 of
                        Inl e \<Rightarrow> Inl e
                      | Inr c \<Rightarrow>
                         if isclose c 0 then Inr (- 1, - 1, - 1, - 1)
                         else
                           (let zf = formationz c zval A om ol;
                                R_Mass = mass_to_radius ext Mval cosmo;
                                sig = sigma_r ext R_Mass 0 cosmo
                            in case growthfactor ext zval True cosmo of
                                 Inl e \<Rightarrow> Inl e
                               | Inr g \<Rightarrow> Inr (c, sig, 1.686 / (sig * g), zf)))))))"

text \<open>
  \<^verbatim>\<open>COM\<close> walks \<^verbatim>\<open>_izip(z, M)\<close> and stores the four values of each pair at its index.
  The arrays are allocated with \<^verbatim>\<open>np.empty_like(z)\<close>; the model returns the entries
  the loop writes, which are all of them when \<open>M\<close> is as long as \<open>z\<close>.
\<close>

fun COM_loop ::
  "ext \<Rightarrow> dict \<Rightarrow> (real \<times> real) list
     \<Rightarrow> error + (real list \<times> real list \<times> real list \<times> real list)" where
  "COM_loop ext cosmo [] = Inr ([], [], [], [])"
| "COM_loop ext cosmo ((zval, Mval) # rest) =
     (case COM_row ext cosmo zval Mval of
        Inl e \<Rightarrow> Inl e
      | Inr (c, sig, nu, zf) \<Rightarrow>
         (case COM_loop ext cosmo rest of
            Inl e \<Rightarrow> Inl e
          | Inr (c_array, sig_array, nu_array, zf_array) \<Rightarrow>
              Inr (c # c_array, sig # sig_array, nu # nu_array, zf # zf_array)))"

definition COM ::
  "ext \<Rightarrow> real list \<Rightarrow> real list \<Rightarrow> dict
     \<Rightarrow> error + (real list \<times> real list \<times> real list \<times> real list)" where
  "COM ext z M cosmo = COM_loop ext cosmo (izip z M)"

subsection \<open>Cosmology resolution\<close>

text \<open>
  The module \<^verbatim>\<open>commah.cosmology_list\<close> (\<^verbatim>\<open>cg\<close>) is not among the sources: the
  parameter sets it returns are parameters of the model, each one the list of the items
  of the dictionary that a call such as \<^verbatim>\<open>cg.WMAP5_mean()\<close> builds.
\<close>

record cg =
  DRAGONS :: "(string \<times> real) list"
  WMAP1_Mill :: "(string \<times> real) list"
  WMAP3_ML :: "(string \<times> real) list"
  WMAP5_mean :: "(string \<times> real) list"
  WMAP7_ML :: "(string \<times> real) list"
  WMAP9_ML :: "(string \<times> real) list"
  WMAP1_2dF_mean :: "(string \<times> real) list"
  WMAP3_mean :: "(string \<times> real) list"
  WMAP5_ML :: "(string \<times> real) list"
  WMAP5_BAO_SN_mean :: "(string \<times> real) list"
  WMAP7_BAO_H0_mean :: "(string \<times> real) list"
  Planck_2013 :: "(string \<times> real) list"
  Planck_2015 :: "(string \<times> real) list"

text \<open>
  Dictionaries are objects: a store holds them, and an address stands for a reference.
  The argument \<^verbatim>\<open>cosmology\<close> of \<^verbatim>\<open>run\<close> and \<^verbatim>\<open>getcosmo\<close> is a name or a reference to
  the caller's dictionary. Objects that nothing refers to once a call has returned are
  not kept in the store.
\<close>

type_synonym heap = "dict list"

datatype cosmology = Named string | Params nat

definition lower_char :: "char \<Rightarrow> char" where
  "lower_char c =
     (let n = (of_char c :: nat)
      in if 65 \<le> n \<and> n \<le> 90 then char_of (n + 32) else c)"

definition lower :: "string \<Rightarrow> string" where
  "lower s = map lower_char s"

definition delta_sigma :: "ext \<Rightarrow> dict \<Rightarrow> error + real" where
  "delta_sigma ext cosmo =
     (let M8_cosmo = radius_to_mass ext 8 cosmo
      in case cosmo ''sigma_8'' of
           None \<Rightarrow> Inl KeyError
         | Some sigma_8 \<Rightarrow>
            if sigma_8 = 0 then Inl ZeroDivisionError
            else
              (case cosmo ''n'' of
                 None \<Rightarrow> Inl KeyError
               | Some n \<Rightarrow>
                  Inr ((0.796 / sigma_8) * (M8_cosmo / (2.5 * 10 ^ 14)) powr ((n - 0.963) / 6))))"

text \<open>The table \<^verbatim>\<open>defaultcosmologies\<close> of \<^verbatim>\<open>getAscaling\<close>.\<close>

definition Ascaling_table :: "(string \<times> real) list" where
  "Ascaling_table =
     [(''dragons'', 887), (''wmap1'', 853), (''wmap3'', 850),
      (''wmap5'', 887), (''wmap7'', 887), (''wmap9'', 950),
      (''wmap1_lss'', 853), (''wmap3_mean'', 850),
      (''wmap5_ml'', 887), (''wmap5_lss'', 887),
      (''wmap7_lss'', 887),
      (''planck13'', 880), (''planck15'', 880)]"

text \<open>
  \<^verbatim>\<open>getAscaling\<close> is called with a dictionary and \<^verbatim>\<open>newcosmo=True\<close>, or with a name.
  With \<^verbatim>\<open>newcosmo\<close> a name cannot be unpacked by \<^verbatim>\<open>**\<close>, and without it a
  dictionary has no \<^verbatim>\<open>lower\<close>; a name outside the table leaves \<^verbatim>\<open>A_scaling\<close>
  unbound at the \<^verbatim>\<open>return\<close>.
\<close>

definition getAscaling :: "ext \<Rightarrow> string + dict \<Rightarrow> bool \<Rightarrow> error + real" where
  "getAscaling ext cosmology newcosmo =
     (if newcosmo then
        (case cosmology of
           Inl name \<Rightarrow> Inl TypeError
         | Inr d \<Rightarrow>
            (case map_of Ascaling_table ''wmap5'' of
               None \<Rightarrow> Inl KeyError
             | Some A5 \<Rightarrow>
                (case delta_sigma ext d of
                   Inl e \<Rightarrow> Inl e
                 | Inr ds \<Rightarrow> Inr (A5 * ds))))
      else
        (case cosmology of
           Inr d \<Rightarrow> Inl AttributeError
         | Inl name \<Rightarrow>
            (case map_of Ascaling_table (lower name) of
               None \<Rightarrow> Inl UnboundLocalError
             | Some A \<Rightarrow> Inr A)))"

text \<open>The table \<^verbatim>\<open>defaultcosmologies\<close> of \<^verbatim>\<open>getcosmo\<close>.\<close>

definition defaultcosmologies :: "cg \<Rightarrow> (string \<times> (string \<times> real) list) list" where
  "defaultcosmologies cg =
     [(''dragons'', DRAGONS cg), (''wmap1'', WMAP1_Mill cg),
      (''wmap3'', WMAP3_ML cg), (''wmap5'', WMAP5_mean cg),
      (''wmap7'', WMAP7_ML cg), (''wmap9'', WMAP9_ML cg),
      (''wmap1_lss'', WMAP1_2dF_mean cg),
      (''wmap3_mean'', WMAP3_mean cg),
      (''wmap5_ml'', WMAP5_ML cg),
      (''wmap5_lss'', WMAP5_BAO_SN_mean cg),
      (''wmap7_lss'', WMAP7_BAO_H0_mean cg),
      (''planck13'', Planck_2013 cg),
      (''planck15'', Planck_2015 cg)]"

text \<open>
  The loop over \<^verbatim>\<open>cg.WMAP5_mean().keys()\<close>: a parameter name that the dictionary
  lacks is added with the value 0.
\<close>

fun fill_defaults :: "string list \<Rightarrow> dict \<Rightarrow> dict" where
  "fill_defaults [] cosmo = cosmo"
| "fill_defaults (paramnames # rest) cosmo =
     fill_defaults rest
       (case cosmo paramnames of
          None \<Rightarrow> cosmo(paramnames \<mapsto> 0)
        | Some _ \<Rightarrow> cosmo)"

text \<open>
  The end of \<^verbatim>\<open>getcosmo\<close>, common to both branches: \<^verbatim>\<open>set_omega_k_0\<close> and the
  flag \<^verbatim>\<open>baryonic_effects\<close>, both on the object at address \<open>a\<close>.
\<close>

definition getcosmo_finish :: "ext \<Rightarrow> heap \<Rightarrow> nat \<Rightarrow> heap \<times> (error + nat)" where
  "getcosmo_finish ext h a =
     (let h1 = h[a := set_omega_k_0 ext (h ! a)]
      in case (h1 ! a) ''omega_b_0'' of
           None \<Rightarrow> (h1, Inl KeyError)
         | Some omega_b_0 \<Rightarrow>
            (if omega_b_0 > 0
             then (h1[a := (h1 ! a)(''baryonic_effects'' \<mapsto> 1)], Inr a)
             else (h1[a := (h1 ! a)(''baryonic_effects'' \<mapsto> 0)], Inr a)))"

text \<open>
  \<^verbatim>\<open>getcosmo\<close> returns a reference. For a dictionary argument \<^verbatim>\<open>cosmo = cosmology\<close>
  binds the caller's object itself, and every \<^verbatim>\<open>cosmo.update\<close> writes to it. For a
  name the dictionary is a new object, built by the call to \<^verbatim>\<open>cg\<close>.
\<close>

definition getcosmo :: "ext \<Rightarrow> cg \<Rightarrow> heap \<Rightarrow> cosmology \<Rightarrow> heap \<times> (error + nat)" where
  "getcosmo ext cg h cosmology =
     (case cosmology of
        Params a \<Rightarrow>
          (case (h ! a) ''A_scaling'' of
             None \<Rightarrow>
               (case getAscaling ext (Inr (h ! a)) True of
                  Inl e \<Rightarrow> (h, Inl e)
                | Inr A_scaling \<Rightarrow>
                    (let h1 = h[a := (h ! a)(''A_scaling'' \<mapsto> A_scaling)];
                         h2 = h1[a := fill_defaults (map fst (WMAP5_mean cg)) (h1 ! a)]
                     in getcosmo_finish ext h2 a))
           | Some _ \<Rightarrow>
               (let h2 = h[a := fill_defaults (map fst (WMAP5_mean cg)) (h ! a)]
                in getcosmo_finish ext h2 a))
      | Named name \<Rightarrow>
          (case map_of (defaultcosmologies cg) (lower name) of
             None \<Rightarrow> (h, Inl UnboundLocalError)
           | Some items \<Rightarrow>
               (let a = length h;
                    h1 = h @ [map_of items]
                in case getAscaling ext (Inl name) False of
                     Inl e \<Rightarrow> (h1, Inl e)
                   | Inr A_scaling \<Rightarrow>
                       getcosmo_finish ext (h1[a := (h1 ! a)(''A_scaling'' \<mapsto> A_scaling)]) a)))"

subsection \<open>The output table\<close>

text \<open>
  The structured array \<^verbatim>\<open>dataset\<close> has one of three row types, chosen by the flags:
  \<^verbatim>\<open>(zi, Mi, z, dMdt, Mz, c, sig, nu, zf)\<close>, \<^verbatim>\<open>(zi, Mi, z, dMdt, Mz)\<close> or
  \<^verbatim>\<open>(zi, Mi, z, c, sig, nu, zf)\<close>.
\<close>

datatype row =
    RowBoth real real real real real real real real real
  | RowMah real real real real real
  | RowCom real real real real real real real

type_synonym dataset = "row list list"

definition zero_row :: "bool \<Rightarrow> bool \<Rightarrow> row" where
  "zero_row mah com =
     (if mah \<and> com then RowBoth 0 0 0 0 0 0 0 0 0
      else if mah then RowMah 0 0 0 0 0
      else RowCom 0 0 0 0 0 0 0)"

text \<open>\<^verbatim>\<open>np.zeros((lenm, lenzout), dtype=...)\<close>.\<close>

definition np_zeros :: "nat \<Rightarrow> nat \<Rightarrow> bool \<Rightarrow> bool \<Rightarrow> dataset" where
  "np_zeros lenm lenzout mah com = replicate lenm (replicate lenzout (zero_row mah com))"

text \<open>\<^verbatim>\<open>dataset[i_ind, j_ind] = v\<close>; numpy raises outside the shape.\<close>

definition setitem2 :: "dataset \<Rightarrow> nat \<Rightarrow> nat \<Rightarrow> row \<Rightarrow> error + dataset" where
  "setitem2 ds i j v =
     (if i < length ds \<and> j < length (ds ! i)
      then Inr (ds[i := (ds ! i)[j := v]])
      else Inl IndexError)"

text \<open>
  The tuples the three saving loops build at index \<open>j_ind\<close>; reading an array outside
  its length raises.
\<close>

definition row_both ::
  "real \<Rightarrow> real \<Rightarrow> real list \<Rightarrow> real list \<Rightarrow> real list
     \<Rightarrow> real list \<Rightarrow> real list \<Rightarrow> real list \<Rightarrow> real list \<Rightarrow> nat \<Rightarrow> error + row" where
  "row_both zval Mval ztemp dMdt Mz c sig nu zf j =
     (if j < length ztemp \<and> j < length dMdt \<and> j < length Mz \<and> j < length c
          \<and> j < length sig \<and> j < length nu \<and> j < length zf
      then Inr (RowBoth zval Mval (ztemp ! j) (dMdt ! j) (Mz ! j)
                  (c ! j) (sig ! j) (nu ! j) (zf ! j))
      else Inl IndexError)"

definition row_mah ::
  "real \<Rightarrow> real \<Rightarrow> real list \<Rightarrow> real list \<Rightarrow> real list \<Rightarrow> nat \<Rightarrow> error + row" where
  "row_mah zval Mval ztemp dMdt Mz j =
     (if j < length ztemp \<and> j < length dMdt \<and> j < length Mz
      then Inr (RowMah zval Mval (ztemp ! j) (dMdt ! j) (Mz ! j))
      else Inl IndexError)"

definition row_com ::
  "real \<Rightarrow> real \<Rightarrow> real list \<Rightarrow> real list \<Rightarrow> real list \<Rightarrow> real list \<Rightarrow> real list
     \<Rightarrow> nat \<Rightarrow> error + row" where
  "row_com zval Mval ztemp c sig nu zf j =
     (if j < length ztemp \<and> j < length c \<and> j < length sig \<and> j < length nu
          \<and> j < length zf
      then Inr (RowCom zval Mval (ztemp ! j) (c ! j) (sig ! j) (nu ! j) (zf ! j))
      else Inl IndexError)"

text \<open>
  \<^verbatim>\<open>for j_ind, j_val in enumerate(ztemp): dataset[i_ind, j_ind] = ...\<close>, over the
  indices \<open>js\<close> of \<open>ztemp\<close>, with the tuple of index \<open>j\<close> given by \<open>mk j\<close>.
\<close>

fun save_rows :: "(nat \<Rightarrow> error + row) \<Rightarrow> nat \<Rightarrow> nat list \<Rightarrow> dataset \<Rightarrow> error + dataset" where
  "save_rows mk i [] ds = Inr ds"
| "save_rows mk i (j # js) ds =
     (case mk j of
        Inl e \<Rightarrow> Inl e
      | Inr v \<Rightarrow>
         (case setitem2 ds i j v of
            Inl e \<Rightarrow> Inl e
          | Inr ds' \<Rightarrow> save_rows mk i js ds'))"

subsection \<open>The orchestrator: \<^verbatim>\<open>run\<close>\<close>

text \<open>The output redshifts of one sample: \<^verbatim>\<open>ztemp\<close>.\<close>

definition targets :: "real list option \<Rightarrow> real \<Rightarrow> real list" where
  "targets z zval =
     (case z of
        None \<Rightarrow> [zval]
      | Some zs \<Rightarrow> filter (\<lambda>x. x \<ge> zval) zs)"

text \<open>The body of the loop over the samples, for the sample \<open>(zval, Mval)\<close> of index \<open>i_ind\<close>.\<close>

definition run_sample ::
  "ext \<Rightarrow> dict \<Rightarrow> bool \<Rightarrow> bool \<Rightarrow> real list option \<Rightarrow> nat \<Rightarrow> real \<Rightarrow> real \<Rightarrow> dataset
     \<Rightarrow> error + dataset" where
  "run_sample ext cosmo mah com z i_ind zval Mval dataset =
     (let ztemp = targets z zval
      in if ztemp \<noteq> [] then
           (case MAH ext ztemp zval Mval cosmo of
              Inl e \<Rightarrow> Inl e
            | Inr (dMdt, Mz) \<Rightarrow>
               if mah \<and> com then
                 (case COM ext ztemp Mz cosmo of
                    Inl e \<Rightarrow> Inl e
                  | Inr (c, sig, nu, zf) \<Rightarrow>
                      save_rows (row_both zval Mval ztemp dMdt Mz c sig nu zf) i_ind
                        [0..<length ztemp] dataset)
               else if mah then
                 save_rows (row_mah zval Mval ztemp dMdt Mz) i_ind [0..<length ztemp] dataset
               else
                 (case COM ext ztemp Mz cosmo of
                    Inl e \<Rightarrow> Inl e
                  | Inr (c, sig, nu, zf) \<Rightarrow>
                      save_rows (row_com zval Mval ztemp c sig nu zf) i_ind
                        [0..<length ztemp] dataset))
         else Inr dataset)"

text \<open>\<^verbatim>\<open>for i_ind, (zval, Mval) in enumerate(_izip(zi, Mi))\<close>.\<close>

fun run_loop ::
  "ext \<Rightarrow> dict \<Rightarrow> bool \<Rightarrow> bool \<Rightarrow> real list option \<Rightarrow> nat \<Rightarrow> (real \<times> real) list \<Rightarrow> dataset
     \<Rightarrow> error + dataset" where
  "run_loop ext cosmo mah com z i_ind [] dataset = Inr dataset"
| "run_loop ext cosmo mah com z i_ind ((zval, Mval) # rest) dataset =
     (case run_sample ext cosmo mah com z i_ind zval Mval dataset of
        Inl e \<Rightarrow> Inl e
      | Inr dataset' \<Rightarrow> run_loop ext cosmo mah com z (Suc i_ind) rest dataset')"

text \<open>
  What \<^verbatim>\<open>run\<close> returns: \<^verbatim>\<open>-1\<close>, the table, or with \<^verbatim>\<open>retcosmo\<close> the table and the
  cosmology dictionary (a reference).
\<close>

datatype result =
    Minus1
  | Dataset dataset
  | DatasetCosmo dataset nat

definition run ::
  "ext \<Rightarrow> cg \<Rightarrow> heap \<Rightarrow> cosmology \<Rightarrow> pyinput \<Rightarrow> pyinput \<Rightarrow> pyinput option
     \<Rightarrow> bool \<Rightarrow> bool \<Rightarrow> bool \<Rightarrow> heap \<times> (error + result)" where
  "run ext cg h cosmology zi0 Mi0 z0 com mah retcosmo =
     (if \<not> com \<and> \<not> mah then (h, Inr Minus1)
      else
        (case checkinput zi0 Mi0 z0 of
           Ambiguous \<Rightarrow> (h, Inr Minus1)
         | Checked zi Mi z lenz lenm lenzout \<Rightarrow>
            (case getcosmo ext cg h cosmology of
               (h', Inl e) \<Rightarrow> (h', Inl e)
             | (h', Inr a) \<Rightarrow>
                (let cosmo = h' ! a;
                     dataset = np_zeros lenm lenzout mah com
                 in case run_loop ext cosmo mah com z 0 (izip zi Mi) dataset of
                      Inl e \<Rightarrow> (h', Inl e)
                    | Inr dataset' \<Rightarrow>
                        if retcosmo then (h', Inr (DatasetCosmo dataset' a))
                        else (h', Inr (Dataset dataset'))))))"

subsection \<open>Reading the result\<close>

text \<open>The table of a result, and the fields \<^verbatim>\<open>zi\<close>, \<^verbatim>\<open>Mi\<close> and \<^verbatim>\<open>z\<close> that every row type has.\<close>

fun table :: "result \<Rightarrow> dataset" where
  "table Minus1 = []"
| "table (Dataset ds) = ds"
| "table (DatasetCosmo ds cosmo) = ds"




subsection \<open>An instance of the parameters\<close>

text \<open>
  The theorems below hold for every collaborator. To instantiate them, \<open>example_params\<close>
  is the parameter dictionary of the module's docstrings, \<open>example_cg\<close> gives it under
  every name, and \<open>example_ext\<close> is a stand-in for the libraries: a one-point rule for
  the quadrature, a root finder that returns the lower end of its bracket, the identity
  for the conversions between mass and radius, \<open>1 / R\<close> for the mass variance, and
  \<^verbatim>\<open>set_omega_k_0\<close> as cosmolopy documents it. \<open>example_cosmo\<close> is the dictionary that
  \<^verbatim>\<open>getcosmo\<close> makes of \<open>example_params\<close>.
\<close>

definition example_params :: "(string \<times> real) list" where
  "example_params =
     [(''N_nu'', 0), (''Y_He'', 0.24), (''h'', 0.702), (''n'', 0.963),
      (''omega_M_0'', 0.275), (''omega_b_0'', 0.0458), (''omega_lambda_0'', 0.725),
      (''omega_n_0'', 0.0), (''sigma_8'', 0.816), (''t_0'', 13.76), (''tau'', 0.088),
      (''z_reion'', 10.6)]"

definition example_cg :: cg where
  "example_cg =
     \<lparr>DRAGONS = example_params, WMAP1_Mill = example_params, WMAP3_ML = example_params,
      WMAP5_mean = example_params, WMAP7_ML = example_params, WMAP9_ML = example_params,
      WMAP1_2dF_mean = example_params, WMAP3_mean = example_params,
      WMAP5_ML = example_params, WMAP5_BAO_SN_mean = example_params,
      WMAP7_BAO_H0_mean = example_params, Planck_2013 = example_params,
      Planck_2015 = example_params\<rparr>"

definition example_ext :: ext where
  "example_ext =
     \<lparr>quad = (\<lambda>f a b. f a),
      brentq = (\<lambda>f a b. Inr a),
      mass_to_radius = (\<lambda>M cosmo. M),
      radius_to_mass = (\<lambda>R cosmo. R),
      sigma_r = (\<lambda>R z cosmo. 1 / R),
      set_omega_k_0 = (\<lambda>cosmo.
         case cosmo ''omega_k_0'' of
           Some k \<Rightarrow> cosmo
         | None \<Rightarrow>
            (case cosmo ''omega_M_0'' of
               None \<Rightarrow> cosmo
             | Some om \<Rightarrow>
                (case cosmo ''omega_lambda_0'' of
                   None \<Rightarrow> cosmo
                 | Some ol \<Rightarrow> cosmo(''omega_k_0'' \<mapsto> 1 - om - ol))))\<rparr>"

definition example_cosmo :: dict where
  "example_cosmo =
     (map_of example_params)
       (''A_scaling'' \<mapsto> 887 * (0.796 / 0.816), ''omega_k_0'' \<mapsto> 0,
        ''baryonic_effects'' \<mapsto> 1)"

subsection \<open>Quantities of \<^verbatim>\<open>calc_ab\<close>\<close>

text \<open>
  Three intermediate values of \<^verbatim>\<open>calc_ab\<close>, named for the statements of the theorems:
  the fitted formation redshift \<^verbatim>\<open>zf\<close>, the fraction \<^verbatim>\<open>q\<close>, and the difference
  \<^verbatim>\<open>sigq**2 - sig**2\<close> whose power \<open>- 0.5\<close> is \<^verbatim>\<open>f\<close>.
\<close>

definition calc_zf :: "real \<Rightarrow> real" where
  "calc_zf Mi = - 0.0064 * (log 10 Mi) ^ 2 + 0.0237 * log 10 Mi + 1.8837"

definition calc_q :: "real \<Rightarrow> real" where
  "calc_q Mi = 4.137 * calc_zf Mi powr (- 0.9476)"

definition sigma_gap :: "ext \<Rightarrow> real \<Rightarrow> dict \<Rightarrow> real" where
  "sigma_gap ext Mi cosmo =
     (sigma_r ext (mass_to_radius ext (Mi / calc_q Mi) cosmo) 0 cosmo) ^ 2
       - (sigma_r ext (mass_to_radius ext Mi cosmo) 0 cosmo) ^ 2"



subsection \<open>The COM-only mode as the specification words it\<close>

text \<open>
  The specification has the COM-only mode call the concentration solver with the
  original mass \<^verbatim>\<open>Mi\<close> broadcast over the target redshifts. This is that call; it is not
  a function of the source, and stands here to be compared with what \<^verbatim>\<open>run\<close> stores.
\<close>

definition COM_on_Mi ::
  "ext \<Rightarrow> real list \<Rightarrow> real \<Rightarrow> dict
     \<Rightarrow> error + (real list \<times> real list \<times> real list \<times> real list)" where
  "COM_on_Mi ext ztemp Mval cosmo = COM ext ztemp (map (\<lambda>_. Mval) ztemp) cosmo"

section \<open>Theorems\<close>

subsection \<open>Input reconciliation\<close>

lemma map_ones_like: "map (\<lambda>one. one * c) (ones_like xs) = replicate (length xs) c"
  by (induction xs) (simp_all add: ones_like_def)

text \<open>
  Claim C4. Input reconciliation broadcasts a length-one input over the other one:
  a single \<open>Mi\<close> is replicated over several \<open>zi\<close>, a single \<open>zi\<close> over several \<open>Mi\<close>,
  and two sequences that are both longer than one and of unequal length are rejected
  with the ambiguous-request result instead of aligned arrays.
\<close>

theorem checkinput_broadcast:
  "(length (np_array Mi) = 1 \<and> 1 < length (np_array zi) \<longrightarrow>
      checkinput zi Mi z =
        checkinput_z (np_array zi)
          (replicate (length (np_array zi)) (np_array Mi ! 0)) z)
   \<and> (length (np_array zi) = 1 \<and> 1 < length (np_array Mi) \<longrightarrow>
      checkinput zi Mi z =
        checkinput_z (replicate (length (np_array Mi)) (np_array zi ! 0))
          (np_array Mi) z)
   \<and> (1 < length (np_array zi) \<and> 1 < length (np_array Mi)
        \<and> length (np_array zi) \<noteq> length (np_array Mi) \<longrightarrow>
      checkinput zi Mi z = Ambiguous)"
  by (simp add: checkinput_def Let_def map_ones_like)

theorem checkinput_broadcast_examples:
  "checkinput (Seq [0, 1]) (Scalar (10 ^ 12)) None
     = Checked [0, 1] [10 ^ 12, 10 ^ 12] None 2 2 1
   \<and> checkinput (Scalar 0) (Seq [10 ^ 10, 10 ^ 12]) None
     = Checked [0, 0] [10 ^ 10, 10 ^ 12] None 2 2 1
   \<and> checkinput (Seq [0, 1]) (Seq [10 ^ 10, 10 ^ 11, 10 ^ 12]) None = Ambiguous"
  using checkinput_broadcast [where zi = "Seq [0, 1]" and Mi = "Scalar (10 ^ 12)" and z = None]
    checkinput_broadcast [where zi = "Scalar 0" and Mi = "Seq [10 ^ 10, 10 ^ 12]" and z = None]
    checkinput_broadcast
      [where zi = "Seq [0, 1]" and Mi = "Seq [10 ^ 10, 10 ^ 11, 10 ^ 12]" and z = None]
  by (simp add: checkinput_z_def numeral_2_eq_2)

subsection \<open>The saving loops\<close>

lemma save_rows_Inr:
  assumes "i < length ds" and "\<forall>j\<in>set js. j < length (ds ! i) \<and> mk j = Inr (f j)"
  shows "\<exists>ds'. save_rows mk i js ds = Inr ds' \<and> length ds' = length ds
           \<and> (\<forall>r. r \<noteq> i \<longrightarrow> ds' ! r = ds ! r)
           \<and> length (ds' ! i) = length (ds ! i)
           \<and> (\<forall>j. j \<notin> set js \<longrightarrow> ds' ! i ! j = ds ! i ! j)
           \<and> (\<forall>j\<in>set js. ds' ! i ! j = f j)"
  using assms
proof (induction js arbitrary: ds)
  case Nil
  then show ?case by simp
next
  case (Cons j js)
  let ?ds1 = "ds[i := (ds ! i)[j := f j]]"
  have s: "setitem2 ds i j (f j) = Inr ?ds1"
    using Cons.prems by (simp add: setitem2_def)
  have p1: "i < length ?ds1" using Cons.prems by simp
  have p2: "\<forall>k\<in>set js. k < length (?ds1 ! i) \<and> mk k = Inr (f k)"
    using Cons.prems by simp
  from Cons.IH [OF p1 p2] obtain ds' where
    r: "save_rows mk i js ?ds1 = Inr ds'" "length ds' = length ?ds1"
       "\<forall>r. r \<noteq> i \<longrightarrow> ds' ! r = ?ds1 ! r"
       "length (ds' ! i) = length (?ds1 ! i)"
       "\<forall>k. k \<notin> set js \<longrightarrow> ds' ! i ! k = ?ds1 ! i ! k"
       "\<forall>k\<in>set js. ds' ! i ! k = f k"
    by blast
  have "save_rows mk i (j # js) ds = Inr ds'"
    using Cons.prems s r(1) by simp
  moreover have "ds' ! i ! j = f j"
    using r(5,6) Cons.prems by (cases "j \<in> set js") simp_all
  ultimately show ?case
    using r Cons.prems by (intro exI [of _ ds']) auto
qed

lemma save_rows_Inr_iff:
  assumes "save_rows mk i js ds = Inr ds'"
  shows "js = [] \<or> (i < length ds \<and> (\<forall>j\<in>set js. j < length (ds ! i) \<and> (\<exists>v. mk j = Inr v)))"
  using assms
proof (induction js arbitrary: ds)
  case Nil
  then show ?case by simp
next
  case (Cons j js)
  from Cons.prems obtain v ds1 where
    v: "mk j = Inr v" and s: "setitem2 ds i j v = Inr ds1" and r: "save_rows mk i js ds1 = Inr ds'"
    by (auto split: sum.splits)
  from s have b: "i < length ds" "j < length (ds ! i)" "ds1 = ds[i := (ds ! i)[j := v]]"
    by (auto simp: setitem2_def split: if_splits)
  from Cons.IH [OF r] b have "\<forall>k\<in>set js. k < length (ds ! i) \<and> (\<exists>v. mk k = Inr v)"
    by auto
  with v b show ?case by auto
qed

lemma izip_zip: "izip xs ys = zip xs ys"
  by (induction xs ys rule: izip.induct) simp_all

lemma save_rows_upt:
  assumes "save_rows mk i [0..<n] ds = Inr ds'" and "0 < n"
  shows "i < length ds \<and> n \<le> length (ds ! i) \<and> length ds' = length ds
           \<and> (\<forall>r. r \<noteq> i \<longrightarrow> ds' ! r = ds ! r)
           \<and> length (ds' ! i) = length (ds ! i)
           \<and> (\<forall>j. n \<le> j \<longrightarrow> ds' ! i ! j = ds ! i ! j)
           \<and> (\<forall>j<n. mk j = Inr (ds' ! i ! j))"
proof -
  define f where "f j = (case mk j of Inr v \<Rightarrow> v | Inl e \<Rightarrow> ds ! i ! j)" for j
  from save_rows_Inr_iff [OF assms(1)] assms(2)
  have a: "i < length ds" and b: "\<forall>j\<in>set [0..<n]. j < length (ds ! i) \<and> (\<exists>v. mk j = Inr v)"
    by auto
  have c: "\<forall>j\<in>set [0..<n]. j < length (ds ! i) \<and> mk j = Inr (f j)"
    using b by (auto simp: f_def)
  from save_rows_Inr [OF a c] assms(1) have
    r: "length ds' = length ds" "\<forall>r. r \<noteq> i \<longrightarrow> ds' ! r = ds ! r"
       "length (ds' ! i) = length (ds ! i)"
       "\<forall>j. j \<notin> set [0..<n] \<longrightarrow> ds' ! i ! j = ds ! i ! j"
       "\<forall>j\<in>set [0..<n]. ds' ! i ! j = f j"
    by auto
  have "n \<le> length (ds ! i)"
    using b assms(2) by (cases n) auto
  moreover have "\<forall>j<n. mk j = Inr (ds' ! i ! j)"
    using c r(5) by simp
  ultimately show ?thesis
    using a r by simp
qed

lemma MAH_Inr:
  "MAH ext zs zi Mi cosmo = Inr (dMdt, Mz) \<Longrightarrow>
     length dMdt = length zs \<and> length Mz = length zs
     \<and> (\<forall>j<length zs. acc_rate ext (zs ! j) zi Mi cosmo = Inr (dMdt ! j, Mz ! j))"
proof (induction zs arbitrary: dMdt Mz)
  case Nil
  then show ?case by simp
next
  case (Cons z zs)
  from Cons.prems obtain d m ds ms where
    h: "acc_rate ext z zi Mi cosmo = Inr (d, m)" "MAH ext zs zi Mi cosmo = Inr (ds, ms)"
       "dMdt = d # ds" "Mz = m # ms"
    by (auto split: sum.splits prod.splits)
  from Cons.IH [OF h(2)] h show ?case
    by (auto simp: nth_Cons split: nat.splits)
qed

lemma COM_loop_Inr:
  "COM_loop ext cosmo ps = Inr (c, sig, nu, zf) \<Longrightarrow>
     length c = length ps \<and> length sig = length ps \<and> length nu = length ps
     \<and> length zf = length ps
     \<and> (\<forall>j<length ps. COM_row ext cosmo (fst (ps ! j)) (snd (ps ! j))
            = Inr (c ! j, sig ! j, nu ! j, zf ! j))"
proof (induction ps arbitrary: c sig nu zf)
  case Nil
  then show ?case by simp
next
  case (Cons p ps)
  obtain zval Mval where p: "p = (zval, Mval)" by (cases p)
  from Cons.prems p obtain c0 s0 n0 z0 cs ss ns zs where
    h: "COM_row ext cosmo zval Mval = Inr (c0, s0, n0, z0)"
       "COM_loop ext cosmo ps = Inr (cs, ss, ns, zs)"
       "c = c0 # cs" "sig = s0 # ss" "nu = n0 # ns" "zf = z0 # zs"
    by (auto split: sum.splits prod.splits)
  from Cons.IH [OF h(2)] h p show ?case
    by (auto simp: nth_Cons split: nat.splits)
qed

lemma COM_Inr:
  assumes "COM ext z M cosmo = Inr (c, sig, nu, zf)" and "length M = length z"
  shows "length c = length z \<and> length sig = length z \<and> length nu = length z
     \<and> length zf = length z
     \<and> (\<forall>j<length z. COM_row ext cosmo (z ! j) (M ! j) = Inr (c ! j, sig ! j, nu ! j, zf ! j))"
  using COM_loop_Inr [of ext cosmo "izip z M" c sig nu zf] assms
  by (simp add: COM_def izip_zip)

subsection \<open>One sample, and the loop over the samples\<close>

lemma run_sample_frame:
  assumes "run_sample ext cosmo mah com z i zval Mval ds = Inr ds'"
  shows "length ds' = length ds \<and> (\<forall>r. r \<noteq> i \<longrightarrow> ds' ! r = ds ! r)
           \<and> (targets z zval = [] \<longrightarrow> ds' = ds)"
proof (cases "targets z zval = []")
  case True
  with assms show ?thesis by (simp add: run_sample_def Let_def)
next
  case False
  then have n: "0 < length (targets z zval)" by simp
  from assms False obtain mk where "save_rows mk i [0..<length (targets z zval)] ds = Inr ds'"
    by (auto simp: run_sample_def Let_def split: sum.splits prod.splits if_splits)
  from save_rows_upt [OF this n] False show ?thesis by simp
qed

lemma run_sample_rows:
  assumes "run_sample ext cosmo mah com z i zval Mval ds = Inr ds'"
    and "targets z zval \<noteq> []"
  shows "i < length ds \<and> length (targets z zval) \<le> length (ds ! i)
           \<and> length (ds' ! i) = length (ds ! i)
           \<and> (\<forall>j. length (targets z zval) \<le> j \<longrightarrow> ds' ! i ! j = ds ! i ! j)
           \<and> (\<exists>dMdt Mz. MAH ext (targets z zval) zval Mval cosmo = Inr (dMdt, Mz)
                \<and> (if mah \<and> \<not> com then
                      (\<forall>j<length (targets z zval).
                          ds' ! i ! j = RowMah zval Mval (targets z zval ! j) (dMdt ! j) (Mz ! j))
                    else
                      (\<exists>c sig nu zf. COM ext (targets z zval) Mz cosmo = Inr (c, sig, nu, zf)
                         \<and> (\<forall>j<length (targets z zval).
                               ds' ! i ! j =
                                 (if mah then
                                    RowBoth zval Mval (targets z zval ! j) (dMdt ! j) (Mz ! j)
                                      (c ! j) (sig ! j) (nu ! j) (zf ! j)
                                  else
                                    RowCom zval Mval (targets z zval ! j)
                                      (c ! j) (sig ! j) (nu ! j) (zf ! j))))))"
proof -
  let ?zt = "targets z zval"
  have n: "0 < length ?zt" using assms(2) by simp
  from assms obtain dMdt Mz where m: "MAH ext ?zt zval Mval cosmo = Inr (dMdt, Mz)"
    by (auto simp: run_sample_def Let_def split: sum.splits prod.splits if_splits)
  note ml = MAH_Inr [OF m]
  show ?thesis
  proof (cases "mah \<and> \<not> com")
    case True
    with assms m have s: "save_rows (row_mah zval Mval ?zt dMdt Mz) i [0..<length ?zt] ds = Inr ds'"
      by (simp add: run_sample_def Let_def)
    from save_rows_upt [OF s n] ml m True show ?thesis
      by (auto simp: row_mah_def)
  next
    case False
    with assms m obtain c sig nu zf where
      co: "COM ext ?zt Mz cosmo = Inr (c, sig, nu, zf)"
      by (auto simp: run_sample_def Let_def split: sum.splits prod.splits if_splits)
    have len: "length Mz = length ?zt" using ml by simp
    note cl = COM_Inr [OF co len]
    show ?thesis
    proof (cases mah)
      case True
      with False have com by simp
      with True assms m co
      have s: "save_rows (row_both zval Mval ?zt dMdt Mz c sig nu zf) i [0..<length ?zt] ds = Inr ds'"
        by (simp add: run_sample_def Let_def)
      from save_rows_upt [OF s n] ml cl m co True False show ?thesis
        by (auto simp: row_both_def)
    next
      case nm: False
      with assms m co
      have s: "save_rows (row_com zval Mval ?zt c sig nu zf) i [0..<length ?zt] ds = Inr ds'"
        by (simp add: run_sample_def Let_def)
      from save_rows_upt [OF s n] ml cl m co nm show ?thesis
        by (auto simp: row_com_def)
    qed
  qed
qed

lemma run_loop_rows:
  assumes "run_loop ext cosmo mah com z i0 samples ds = Inr ds'"
  shows "length ds' = length ds \<and> (\<forall>r<i0. ds' ! r = ds ! r)
    \<and> (\<forall>k<length samples. \<exists>d1 d2.
           run_sample ext cosmo mah com z (i0 + k) (fst (samples ! k)) (snd (samples ! k)) d1
             = Inr d2
           \<and> length d1 = length ds
           \<and> (i0 + k < length ds \<longrightarrow> d1 ! (i0 + k) = ds ! (i0 + k))
           \<and> d2 ! (i0 + k) = ds' ! (i0 + k))"
  using assms
proof (induction samples arbitrary: i0 ds)
  case Nil
  then show ?case by simp
next
  case (Cons s rest)
  obtain zval Mval where s: "s = (zval, Mval)" by (cases s)
  from Cons.prems s obtain dsa where
    a: "run_sample ext cosmo mah com z i0 zval Mval ds = Inr dsa"
    and b: "run_loop ext cosmo mah com z (Suc i0) rest dsa = Inr ds'"
    by (auto split: sum.splits)
  from run_sample_frame [OF a] have
    f: "length dsa = length ds" "\<forall>r. r \<noteq> i0 \<longrightarrow> dsa ! r = ds ! r"
    by simp_all
  from Cons.IH [OF b] have
    ih: "length ds' = length dsa" "\<forall>r<Suc i0. ds' ! r = dsa ! r"
        "\<forall>k<length rest. \<exists>d1 d2.
           run_sample ext cosmo mah com z (Suc i0 + k) (fst (rest ! k)) (snd (rest ! k)) d1
             = Inr d2
           \<and> length d1 = length dsa
           \<and> (Suc i0 + k < length dsa \<longrightarrow> d1 ! (Suc i0 + k) = dsa ! (Suc i0 + k))
           \<and> d2 ! (Suc i0 + k) = ds' ! (Suc i0 + k)"
    by simp_all
  have 1: "length ds' = length ds" using ih(1) f(1) by simp
  have 2: "\<forall>r<i0. ds' ! r = ds ! r" using ih(2) f(2) by simp
  have 3: "\<exists>d1 d2.
           run_sample ext cosmo mah com z (i0 + k) (fst ((s # rest) ! k)) (snd ((s # rest) ! k)) d1
             = Inr d2
           \<and> length d1 = length ds
           \<and> (i0 + k < length ds \<longrightarrow> d1 ! (i0 + k) = ds ! (i0 + k))
           \<and> d2 ! (i0 + k) = ds' ! (i0 + k)" if k: "k < length (s # rest)" for k
  proof (cases k)
    case 0
    have "dsa ! i0 = ds' ! i0" using ih(2) by simp
    with a s 0 show ?thesis by auto
  next
    case (Suc k')
    with k have "k' < length rest" by simp
    with ih(3) obtain d1 d2 where
      d: "run_sample ext cosmo mah com z (Suc i0 + k') (fst (rest ! k')) (snd (rest ! k')) d1
             = Inr d2"
         "length d1 = length dsa"
         "Suc i0 + k' < length dsa \<longrightarrow> d1 ! (Suc i0 + k') = dsa ! (Suc i0 + k')"
         "d2 ! (Suc i0 + k') = ds' ! (Suc i0 + k')"
      by blast
    have "dsa ! (Suc i0 + k') = ds ! (Suc i0 + k')" using f(2) by simp
    with d f(1) Suc show ?thesis by auto
  qed
  from 1 2 3 show ?case by blast
qed

lemma checkinput_Checked:
  assumes "checkinput zi0 Mi0 z0 = Checked zi Mi z lenz lenm lenzout"
  shows "lenz = length zi \<and> lenm = length Mi
           \<and> z = map_option np_array z0
           \<and> lenzout = (case z of None \<Rightarrow> 1 | Some zs \<Rightarrow> length zs)"
  using assms
  by (auto simp: checkinput_def checkinput_z_def Let_def split: if_splits option.splits)

lemma length_targets: "length (targets z zval) \<le> (case z of None \<Rightarrow> 1 | Some zs \<Rightarrow> length zs)"
  by (simp add: targets_def split: option.splits)

lemma run_Inr:
  assumes "run ext cg h cosmology zi0 Mi0 z0 com mah retcosmo = (h', Inr res)"
    and "res \<noteq> Minus1"
  shows "\<exists>zi Mi z lenz lenm lenzout a ds.
           checkinput zi0 Mi0 z0 = Checked zi Mi z lenz lenm lenzout
           \<and> getcosmo ext cg h cosmology = (h', Inr a)
           \<and> run_loop ext (h' ! a) mah com z 0 (izip zi Mi) (np_zeros lenm lenzout mah com)
                = Inr ds
           \<and> res = (if retcosmo then DatasetCosmo ds a else Dataset ds)"
  using assms
  by (auto simp: run_def Let_def split: if_splits checked.splits sum.splits prod.splits)

subsection \<open>The mass factor decreases with redshift\<close>

lemma ln_diff_le:
  fixes x1 x2 :: real
  assumes "0 \<le> x1" and "x1 \<le> x2"
  shows "0 \<le> ln (1 + x2) - ln (1 + x1)" and "ln (1 + x2) - ln (1 + x1) \<le> x2 - x1"
proof -
  have p1: "0 < 1 + x1" and p2: "0 < 1 + x2" using assms by simp_all
  show "0 \<le> ln (1 + x2) - ln (1 + x1)"
    using assms p1 p2 by simp
  have "ln (1 + x2) - ln (1 + x1) = ln ((1 + x2) / (1 + x1))"
    using p1 p2 by (simp add: ln_div)
  also have "\<dots> \<le> (1 + x2) / (1 + x1) - 1"
    using p1 p2 by (intro ln_le_minus_one) simp
  also have "\<dots> = (x2 - x1) / (1 + x1)"
    using p1 by (simp add: field_simps)
  also have "\<dots> \<le> (x2 - x1) / 1"
    using assms by (intro divide_left_mono) simp_all
  finally show "ln (1 + x2) - ln (1 + x1) \<le> x2 - x1" by simp
qed


lemma mass_factor_strict:
  fixes a b x :: real
  assumes "b < 0" and "a + b \<le> 0" and "0 < x"
  shows "(1 + x) powr a * exp (b * x) < 1"
proof -
  have L0: "0 \<le> ln (1 + x)" and L1: "ln (1 + x) \<le> x"
    using ln_diff_le [of 0 x] assms by simp_all
  have d: "a * ln (1 + x) + b * x < 0"
  proof (cases "a \<le> 0")
    case True
    have "a * ln (1 + x) \<le> 0" using True L0 by (simp add: mult_nonpos_nonneg)
    moreover have "b * x < 0" using assms by (simp add: mult_neg_pos)
    ultimately show ?thesis by simp
  next
    case False
    then have ab: "a + b \<le> 0" "0 < a" using assms by simp_all
    have "ln (1 + x) < x" using assms ln_add_one_self_less_self by simp
    then have "a * ln (1 + x) < a * x" using ab by simp
    then have "a * ln (1 + x) + b * x < (a + b) * x" by (simp add: algebra_simps)
    also have "\<dots> \<le> 0" using assms by (simp add: mult_nonpos_nonneg)
    finally show ?thesis .
  qed
  have "(1 + x) powr a * exp (b * x) = exp (a * ln (1 + x) + b * x)"
    using assms by (simp add: powr_def exp_add)
  with d show ?thesis by simp
qed

subsection \<open>The example instance\<close>

lemma fill_defaults_example:
  "fill_defaults (map fst example_params) ((map_of example_params)(''A_scaling'' \<mapsto> A))
     = (map_of example_params)(''A_scaling'' \<mapsto> A)"
  by (simp add: example_params_def)

lemma getAscaling_example:
  "getAscaling example_ext (Inr (map_of example_params)) True = Inr (887 * (0.796 / 0.816))"
  by (simp add: getAscaling_def delta_sigma_def Ascaling_table_def example_params_def
      example_ext_def)

lemma getcosmo_finish_example:
  "getcosmo_finish example_ext [(map_of example_params)(''A_scaling'' \<mapsto> A)] 0
     = ([(map_of example_params)
           (''A_scaling'' \<mapsto> A, ''omega_k_0'' \<mapsto> 0, ''baryonic_effects'' \<mapsto> 1)], Inr 0)"
  by (simp add: getcosmo_finish_def example_ext_def example_params_def Let_def)

lemma getcosmo_example:
  "getcosmo example_ext example_cg [map_of example_params] (Params 0)
     = ([example_cosmo], Inr 0)"
proof -
  have a: "(map_of example_params) ''A_scaling'' = None"
    by (simp add: example_params_def)
  have w: "WMAP5_mean example_cg = example_params"
    by (simp add: example_cg_def)
  show ?thesis
    by (simp add: getcosmo_def a w getAscaling_example Let_def fill_defaults_example
        getcosmo_finish_example example_cosmo_def)
qed

lemma example_cosmo_keys:
  "example_cosmo ''omega_M_0'' = Some 0.275"
  "example_cosmo ''omega_lambda_0'' = Some 0.725"
  "example_cosmo ''h'' = Some 0.702"
  "example_cosmo ''A_scaling'' = Some (887 * (0.796 / 0.816))"
  by (simp_all add: example_cosmo_def example_params_def)

subsection \<open>The numerical functions return\<close>

lemma zmax_pos: "0 < zmax"
  by (simp add: zmax_def)

lemma int_growth_Inr:
  assumes "cosmo ''omega_M_0'' = Some om" and "cosmo ''omega_lambda_0'' = Some ol"
    and "z < zmax"
  shows "int_growth ext z cosmo = Inr (quad ext (growth_integrand om ol) z zmax)"
  using assms by (simp add: int_growth_def)

lemma growthfactor_Inr:
  assumes "cosmo ''omega_M_0'' = Some om" and "cosmo ''omega_lambda_0'' = Some ol"
    and "z < zmax"
  shows "growthfactor ext z True cosmo =
           Inr (sqrt (om * (1 + z) ^ 3 + ol) * quad ext (growth_integrand om ol) z zmax
                  / quad ext (growth_integrand om ol) 0 zmax)"
  using assms zmax_pos by (simp add: growthfactor_def int_growth_Inr Let_def)

lemma deriv_growth_total:
  assumes "cosmo ''omega_M_0'' = Some om" and "cosmo ''omega_lambda_0'' = Some ol"
    and "z < zmax"
  shows "\<exists>dg. deriv_growth ext z cosmo = Inr dg"
  using assms by (simp add: deriv_growth_def growthfactor_Inr int_growth_Inr Let_def)

lemma calc_ab_total:
  assumes "cosmo ''omega_M_0'' = Some om" and "cosmo ''omega_lambda_0'' = Some ol"
    and "zi < zmax"
  shows "\<exists>a b. calc_ab ext zi Mi cosmo = Inr (a, b)"
proof -
  from deriv_growth_total [OF assms] obtain dg where "deriv_growth ext zi cosmo = Inr dg" ..
  then show ?thesis
    using assms by (simp add: calc_ab_def growthfactor_Inr Let_def)
qed

lemma calc_ab_growthfactor:
  assumes "calc_ab ext zi Mi cosmo = Inr (a, b)"
  shows "\<exists>g. growthfactor ext zi True cosmo = Inr g"
  using assms by (auto simp: calc_ab_def Let_def split: sum.splits)

lemma acc_rate_Inr:
  assumes "calc_ab ext zi Mi cosmo = Inr (a_tilde, b_tilde)"
    and "cosmo ''h'' = Some h"
    and "cosmo ''omega_M_0'' = Some om" and "cosmo ''omega_lambda_0'' = Some ol"
  shows "acc_rate ext z zi Mi cosmo =
           Inr (71.6 * (Mi * (1 + z - zi) powr a_tilde * exp (b_tilde * (z - zi)) / 10 ^ 12)
                  * (h / 0.7) * (- a_tilde / (1 + z - zi) - b_tilde) * (1 + z)
                  * sqrt (om * (1 + z) ^ 3 + ol),
                Mi * (1 + z - zi) powr a_tilde * exp (b_tilde * (z - zi)))"
  unfolding acc_rate_def Let_def using assms by simp

lemma acc_rate_total:
  assumes "cosmo ''omega_M_0'' = Some om" and "cosmo ''omega_lambda_0'' = Some ol"
    and "cosmo ''h'' = Some h" and "zi < zmax"
  shows "\<exists>dMdt Mz. acc_rate ext z zi Mi cosmo = Inr (dMdt, Mz)"
proof -
  from calc_ab_total [OF assms(1,2,4)] obtain a b where "calc_ab ext zi Mi cosmo = Inr (a, b)"
    by blast
  from acc_rate_Inr [OF this assms(3,1,2)] show ?thesis
    by blast
qed

lemma MAH_total:
  assumes "cosmo ''omega_M_0'' = Some om" and "cosmo ''omega_lambda_0'' = Some ol"
    and "cosmo ''h'' = Some h" and "zi < zmax"
  shows "\<exists>dMdt Mz. MAH ext zs zi Mi cosmo = Inr (dMdt, Mz)"
proof (induction zs)
  case Nil
  show ?case by simp
next
  case (Cons z zs)
  from acc_rate_total [OF assms] obtain d m where "acc_rate ext z zi Mi cosmo = Inr (d, m)"
    by blast
  with Cons show ?case by auto
qed

lemma COM_row_total:
  assumes "cosmo ''omega_M_0'' = Some om" and "cosmo ''omega_lambda_0'' = Some ol"
    and "cosmo ''A_scaling'' = Some A" and "zval < zmax"
    and "\<And>f. \<exists>c. brentq ext f 2 1000 = Inr c"
  shows "\<exists>c sig nu zf. COM_row ext cosmo zval Mval = Inr (c, sig, nu, zf)"
proof -
  from calc_ab_total [OF assms(1,2,4)] obtain a b where
    ab: "calc_ab ext zval Mval cosmo = Inr (a, b)"
    by blast
  from assms(5) obtain c where
    c: "brentq ext (\<lambda>c. minimize_c c zval a b A om ol) 2 1000 = Inr c"
    by blast
  show ?thesis
    using assms(1-4) ab c by (simp add: COM_row_def growthfactor_Inr Let_def)
qed

lemma COM_loop_total:
  assumes "cosmo ''omega_M_0'' = Some om" and "cosmo ''omega_lambda_0'' = Some ol"
    and "cosmo ''A_scaling'' = Some A"
    and "\<And>f. \<exists>c. brentq ext f 2 1000 = Inr c"
    and "\<forall>p\<in>set ps. fst p < zmax"
  shows "\<exists>c sig nu zf. COM_loop ext cosmo ps = Inr (c, sig, nu, zf)"
  using assms(5)
proof (induction ps)
  case Nil
  show ?case by simp
next
  case (Cons p ps)
  obtain zval Mval where p: "p = (zval, Mval)" by (cases p)
  with Cons.prems have "zval < zmax" by simp
  from COM_row_total [OF assms(1-3) this assms(4)] obtain c0 s0 n0 z0 where
    "COM_row ext cosmo zval Mval = Inr (c0, s0, n0, z0)"
    by blast
  moreover from Cons obtain cs ss ns zs where "COM_loop ext cosmo ps = Inr (cs, ss, ns, zs)"
    by auto
  ultimately show ?case using p by simp
qed

lemma COM_total:
  assumes "cosmo ''omega_M_0'' = Some om" and "cosmo ''omega_lambda_0'' = Some ol"
    and "cosmo ''A_scaling'' = Some A"
    and "\<And>f. \<exists>c. brentq ext f 2 1000 = Inr c"
    and "\<forall>x\<in>set z. x < zmax"
  shows "\<exists>c sig nu zf. COM ext z M cosmo = Inr (c, sig, nu, zf)"
proof -
  have "\<forall>p\<in>set (izip z M). fst p < zmax"
    using assms(5) by (auto simp: izip_zip dest: set_zip_leftD)
  from COM_loop_total [OF assms(1-4) this] show ?thesis
    by (simp add: COM_def)
qed

lemma run_sample_total:
  assumes "cosmo ''omega_M_0'' = Some om" and "cosmo ''omega_lambda_0'' = Some ol"
    and "cosmo ''h'' = Some h" and "zval < zmax"
    and "mah \<and> \<not> com \<or>
         (\<exists>A. cosmo ''A_scaling'' = Some A) \<and> (\<forall>f. \<exists>c. brentq ext f 2 1000 = Inr c)
           \<and> (\<forall>x\<in>set (targets z zval). x < zmax)"
    and "i < length ds" and "length (targets z zval) \<le> length (ds ! i)"
  shows "\<exists>ds'. run_sample ext cosmo mah com z i zval Mval ds = Inr ds'"
proof (cases "targets z zval = []")
  case True
  then show ?thesis by (simp add: run_sample_def)
next
  case False
  let ?zt = "targets z zval"
  from MAH_total [OF assms(1-4)] obtain dMdt Mz where
    m: "MAH ext ?zt zval Mval cosmo = Inr (dMdt, Mz)"
    by blast
  note ml = MAH_Inr [OF m]
  have rng: "\<forall>j\<in>set [0..<length ?zt]. j < length (ds ! i)"
    using assms(7) by simp
  show ?thesis
  proof (cases "mah \<and> \<not> com")
    case True
    have "\<forall>j\<in>set [0..<length ?zt]. j < length (ds ! i)
            \<and> row_mah zval Mval ?zt dMdt Mz j
                = Inr (RowMah zval Mval (?zt ! j) (dMdt ! j) (Mz ! j))"
      using rng ml by (simp add: row_mah_def)
    from save_rows_Inr [OF assms(6) this] m True False show ?thesis
      by (auto simp: run_sample_def Let_def)
  next
    case nt: False
    with assms(5) obtain A where
      A: "cosmo ''A_scaling'' = Some A" and b: "\<And>f. \<exists>c. brentq ext f 2 1000 = Inr c"
      and t: "\<forall>x\<in>set ?zt. x < zmax"
      by blast
    from COM_total [OF assms(1,2) A b t] obtain c sig nu zf where
      co: "COM ext ?zt Mz cosmo = Inr (c, sig, nu, zf)"
      by blast
    have len: "length Mz = length ?zt" using ml by simp
    note cl = COM_Inr [OF co len]
    show ?thesis
    proof (cases mah)
      case True
      with nt have com: com by simp
      have "\<forall>j\<in>set [0..<length ?zt]. j < length (ds ! i)
            \<and> row_both zval Mval ?zt dMdt Mz c sig nu zf j
                = Inr (RowBoth zval Mval (?zt ! j) (dMdt ! j) (Mz ! j)
                        (c ! j) (sig ! j) (nu ! j) (zf ! j))"
        using rng ml cl by (simp add: row_both_def)
      from save_rows_Inr [OF assms(6) this] m co True com False show ?thesis
        by (auto simp: run_sample_def Let_def)
    next
      case nm: False
      have "\<forall>j\<in>set [0..<length ?zt]. j < length (ds ! i)
            \<and> row_com zval Mval ?zt c sig nu zf j
                = Inr (RowCom zval Mval (?zt ! j) (c ! j) (sig ! j) (nu ! j) (zf ! j))"
        using rng cl by (simp add: row_com_def)
      from save_rows_Inr [OF assms(6) this] m co nm False show ?thesis
        by (auto simp: run_sample_def Let_def)
    qed
  qed
qed

lemma run_sample_row_length:
  assumes "run_sample ext cosmo mah com z i zval Mval ds = Inr ds'"
  shows "length (ds' ! r) = length (ds ! r)"
proof (cases "targets z zval = []")
  case True
  with run_sample_frame [OF assms] show ?thesis by simp
next
  case False
  from run_sample_rows [OF assms False] run_sample_frame [OF assms] show ?thesis
    by (cases "r = i") simp_all
qed

lemma run_loop_total:
  assumes "cosmo ''omega_M_0'' = Some om" and "cosmo ''omega_lambda_0'' = Some ol"
    and "cosmo ''h'' = Some h"
    and "\<forall>s\<in>set samples. fst s < zmax"
    and "mah \<and> \<not> com \<or>
         (\<exists>A. cosmo ''A_scaling'' = Some A) \<and> (\<forall>f. \<exists>c. brentq ext f 2 1000 = Inr c)
           \<and> (\<forall>s\<in>set samples. \<forall>x\<in>set (targets z (fst s)). x < zmax)"
    and "i0 + length samples \<le> length ds"
    and "\<forall>r<length ds. \<forall>s\<in>set samples. length (targets z (fst s)) \<le> length (ds ! r)"
  shows "\<exists>ds'. run_loop ext cosmo mah com z i0 samples ds = Inr ds'"
  using assms(4-7)
proof (induction samples arbitrary: i0 ds)
  case Nil
  show ?case by simp
next
  case (Cons s rest)
  obtain zval Mval where s: "s = (zval, Mval)" by (cases s)
  have i: "i0 < length ds" using Cons.prems(3) by simp
  have "\<exists>dsa. run_sample ext cosmo mah com z i0 zval Mval ds = Inr dsa"
    using Cons.prems s i by (intro run_sample_total [OF assms(1-3)]) auto
  then obtain dsa where a: "run_sample ext cosmo mah com z i0 zval Mval ds = Inr dsa" ..
  have l: "length dsa = length ds" using run_sample_frame [OF a] by simp
  have rl: "length (dsa ! r) = length (ds ! r)" for r
    using run_sample_row_length [OF a] .
  have "\<exists>ds'. run_loop ext cosmo mah com z (Suc i0) rest dsa = Inr ds'"
    using Cons.prems l rl by (intro Cons.IH) auto
  with a s show ?case by auto
qed

subsection \<open>The sentinel result of \<^verbatim>\<open>run\<close>\<close>

lemma checkinput_Ambiguous:
  "checkinput zi Mi z = Ambiguous \<longleftrightarrow>
     1 < length (np_array zi) \<and> 1 < length (np_array Mi)
       \<and> length (np_array zi) \<noteq> length (np_array Mi)"
  by (auto simp: checkinput_def checkinput_z_def Let_def split: option.splits)


text \<open>
  Claim C3. \<^verbatim>\<open>run\<close> returns \<^verbatim>\<open>-1\<close> in exactly two cases: neither \<^verbatim>\<open>mah\<close> nor \<^verbatim>\<open>com\<close>
  is selected, or \<^verbatim>\<open>zi\<close> and \<^verbatim>\<open>Mi\<close> are both longer than one and of unequal lengths.
  In both it returns at once: whatever the collaborators are, the store is the one it was
  given (the cosmology is not resolved) and no table exists.
\<close>

theorem run_returns_minus1:
  "(snd (run ext cg h cosmology zi Mi z com mah retcosmo) = Inr Minus1
      \<longleftrightarrow> (\<not> com \<and> \<not> mah)
          \<or> (1 < length (np_array zi) \<and> 1 < length (np_array Mi)
               \<and> length (np_array zi) \<noteq> length (np_array Mi)))
   \<and> (snd (run ext cg h cosmology zi Mi z com mah retcosmo) = Inr Minus1
        \<longrightarrow> run ext cg h cosmology zi Mi z com mah retcosmo = (h, Inr Minus1))"
proof -
  let ?amb = "1 < length (np_array zi) \<and> 1 < length (np_array Mi)
               \<and> length (np_array zi) \<noteq> length (np_array Mi)"
  have a: "run ext cg h cosmology zi Mi z com mah retcosmo = (h, Inr Minus1)"
    if "(\<not> com \<and> \<not> mah) \<or> ?amb"
    using that checkinput_Ambiguous [of zi Mi z] by (auto simp: run_def)
  have b: "(\<not> com \<and> \<not> mah) \<or> ?amb"
    if "snd (run ext cg h cosmology zi Mi z com mah retcosmo) = Inr Minus1"
    using that checkinput_Ambiguous [of zi Mi z]
    by (auto simp: run_def Let_def split: if_splits checked.splits sum.splits prod.splits)
  from a b show ?thesis by auto
qed

theorem run_returns_minus1_witness:
  "run example_ext example_cg [map_of example_params] (Params 0)
       (Scalar 0) (Scalar (10 ^ 12)) None False False False
     = ([map_of example_params], Inr Minus1)
   \<and> run example_ext example_cg [map_of example_params] (Params 0)
       (Seq [0, 1]) (Seq [10 ^ 10, 10 ^ 11, 10 ^ 12]) None True True False
     = ([map_of example_params], Inr Minus1)
   \<and> snd (run example_ext example_cg [map_of example_params] (Params 0)
       (Seq [0, 1]) (Scalar (10 ^ 12)) None True True False) \<noteq> Inr Minus1"
  using
    run_returns_minus1 [where zi = "Scalar 0" and Mi = "Scalar (10 ^ 12)"
      and com = False and mah = False and ext = example_ext and cg = example_cg
      and h = "[map_of example_params]" and cosmology = "Params 0" and z = None
      and retcosmo = False]
    run_returns_minus1 [where zi = "Seq [0, 1]" and Mi = "Seq [10 ^ 10, 10 ^ 11, 10 ^ 12]"
      and com = True and mah = True and ext = example_ext and cg = example_cg
      and h = "[map_of example_params]" and cosmology = "Params 0" and z = None
      and retcosmo = False]
    run_returns_minus1 [where zi = "Seq [0, 1]" and Mi = "Scalar (10 ^ 12)"
      and com = True and mah = True and ext = example_ext and cg = example_cg
      and h = "[map_of example_params]" and cosmology = "Params 0" and z = None
      and retcosmo = False]
  by simp

subsection \<open>The indices of \<^verbatim>\<open>calc_ab\<close>, and the example instance evaluated\<close>

lemma calc_ab_Inr:
  assumes "deriv_growth ext zi cosmo = Inr dg" and "growthfactor ext zi True cosmo = Inr g"
  shows "calc_ab ext zi Mi cosmo =
           Inr ((sqrt (2 / pi) * 1.686 * dg / g ^ 2 + 1) * sigma_gap ext Mi cosmo powr (- 0.5),
                - (sigma_gap ext Mi cosmo powr (- 0.5)))"
  unfolding calc_ab_def Let_def sigma_gap_def calc_q_def calc_zf_def using assms by simp

lemma calc_ab_indices:
  assumes "calc_ab ext zi Mi cosmo = Inr (a, b)"
    and "deriv_growth ext zi cosmo = Inr dg" and "dg \<le> 0"
  shows "b \<le> 0 \<and> a + b \<le> 0"
proof -
  from calc_ab_growthfactor [OF assms(1)] obtain g where
    g: "growthfactor ext zi True cosmo = Inr g" ..
  let ?f = "sigma_gap ext Mi cosmo powr (- 0.5)"
  let ?k = "sqrt (2 / pi) * 1.686 * dg / g ^ 2"
  from calc_ab_Inr [OF assms(2) g, of Mi] assms(1) have
    a: "a = (?k + 1) * ?f" and b: "b = - ?f"
    by simp_all
  have f: "0 \<le> ?f" by simp
  have "sqrt (2 / pi) * 1.686 * dg \<le> 0"
    using assms(3) by (simp add: mult_nonneg_nonpos)
  then have k: "?k \<le> 0"
    by (simp add: divide_nonpos_nonneg)
  have "a + b = ?k * ?f" using a b by (simp add: algebra_simps)
  also have "\<dots> \<le> 0" using k f by (rule mult_nonpos_nonneg)
  finally show ?thesis using b f by simp
qed

lemma example_growth_integrand_0: "growth_integrand (11 / 40) (29 / 40) 0 = 1"
  by (simp add: growth_integrand_def)

lemma example_quad: "quad example_ext f a b = f a"
  by (simp add: example_ext_def)

lemma example_cosmo_omega:
  "example_cosmo ''omega_M_0'' = Some (11 / 40)"
  "example_cosmo ''omega_lambda_0'' = Some (29 / 40)"
  using example_cosmo_keys(1,2) by simp_all

lemma example_int_growth_0: "int_growth example_ext 0 example_cosmo = Inr 1"
  using int_growth_Inr [OF example_cosmo_omega zmax_pos, of example_ext]
  by (simp add: example_quad example_growth_integrand_0)

lemma example_growthfactor_0: "growthfactor example_ext 0 True example_cosmo = Inr 1"
  using growthfactor_Inr [OF example_cosmo_omega zmax_pos, of example_ext]
  by (simp add: example_quad example_growth_integrand_0)

lemma example_deriv_growth_0: "deriv_growth example_ext 0 example_cosmo = Inr (- (47 / 80))"
  by (simp add: deriv_growth_def example_cosmo_omega example_growthfactor_0
      example_int_growth_0 Let_def)

lemma log10_12: "log 10 1000000000000 = 12"
proof -
  have "(1000000000000 :: real) = 10 ^ 12" by simp
  then show ?thesis by (simp only: log_pow_cancel)
qed

lemma example_calc_zf: "calc_zf (10 ^ 12) = 2493 / 2000"
  by (simp add: calc_zf_def log10_12)

lemma calc_q_gt_1:
  assumes "1 \<le> calc_zf Mi" and "calc_zf Mi < 4137 / 1000"
  shows "1 < calc_q Mi"
proof -
  let ?x = "calc_zf Mi"
  have p: "0 < ?x" using assms by simp
  have "?x powr (9476 / 10000) \<le> ?x powr 1"
    using assms by (intro powr_mono) simp_all
  then have u: "?x powr (9476 / 10000) < 4137 / 1000" using assms p by simp
  have pos: "0 < ?x powr (9476 / 10000)" using p by simp
  have "?x powr (- (9476 / 10000)) = 1 / ?x powr (9476 / 10000)"
    using p by (simp add: powr_minus_divide)
  then have "calc_q Mi = (4137 / 1000) / ?x powr (9476 / 10000)"
    by (simp add: calc_q_def)
  also have "\<dots> > 1" using u pos by simp
  finally show ?thesis .
qed

lemma example_sigma_gap: "0 < sigma_gap example_ext (10 ^ 12) example_cosmo"
proof -
  have q: "1 < calc_q (10 ^ 12)"
    using example_calc_zf by (intro calc_q_gt_1) simp_all
  have "sigma_gap example_ext (10 ^ 12) example_cosmo
          = (calc_q (10 ^ 12) / 10 ^ 12) ^ 2 - (1 / 10 ^ 12) ^ 2"
    unfolding sigma_gap_def example_ext_def by (simp add: field_simps)
  also have "\<dots> = ((calc_q (10 ^ 12)) ^ 2 - 1) / (10 ^ 12) ^ 2"
    by (simp only: power_divide diff_divide_distrib power_one)
  also have "\<dots> > 0"
  proof -
    have "1 < (calc_q (10 ^ 12)) ^ 2" using q by (intro one_less_power) simp_all
    then show ?thesis by simp
  qed
  finally show ?thesis .
qed

subsection \<open>Accretion rate and mass history\<close>

text \<open>
  Claim C5. For every redshift \<open>z\<close>, initial redshift \<open>zi\<close> and initial mass \<open>Mi\<close>, with the
  indices \<open>a_tilde\<close> and \<open>b_tilde\<close> computed at \<open>(zi, Mi)\<close>, \<^verbatim>\<open>acc_rate\<close> returns the mass
  \<^verbatim>\<open>Mz = Mi * (1 + z - zi)**a_tilde * exp(b_tilde * (z - zi))\<close> and the rate
  \<^verbatim>\<open>dMdt = 71.6 * (Mz/1e12) * (h/0.7) * (-a_tilde/(1 + z - zi) - b_tilde) * (1 + z)
  * sqrt(omega_M_0 * (1 + z)**3 + omega_lambda_0)\<close>.
\<close>

theorem acc_rate_formula:
  assumes "calc_ab ext zi Mi cosmo = Inr (a_tilde, b_tilde)"
    and "cosmo ''h'' = Some h"
    and "cosmo ''omega_M_0'' = Some omega_M_0"
    and "cosmo ''omega_lambda_0'' = Some omega_lambda_0"
  shows "\<exists>dMdt Mz. acc_rate ext z zi Mi cosmo = Inr (dMdt, Mz)
           \<and> Mz = Mi * (1 + z - zi) powr a_tilde * exp (b_tilde * (z - zi))
           \<and> dMdt = 71.6 * (Mz / 10 ^ 12) * (h / 0.7)
                      * (- a_tilde / (1 + z - zi) - b_tilde) * (1 + z)
                      * sqrt (omega_M_0 * (1 + z) ^ 3 + omega_lambda_0)"
  using acc_rate_Inr [OF assms, of z] by blast

theorem acc_rate_formula_witness:
  "\<exists>a b. calc_ab example_ext 0 (10 ^ 12) example_cosmo = Inr (a, b)
     \<and> (\<exists>dMdt Mz. acc_rate example_ext 1 0 (10 ^ 12) example_cosmo = Inr (dMdt, Mz)
           \<and> Mz = 10 ^ 12 * (1 + 1 - 0) powr a * exp (b * (1 - 0))
           \<and> dMdt = 71.6 * (Mz / 10 ^ 12) * (0.702 / 0.7) * (- a / (1 + 1 - 0) - b) * (1 + 1)
                      * sqrt (0.275 * (1 + 1) ^ 3 + 0.725))"
proof -
  from calc_ab_total [OF example_cosmo_keys(1,2) zmax_pos] obtain a b where
    ab: "calc_ab example_ext 0 (10 ^ 12) example_cosmo = Inr (a, b)"
    by blast
  from acc_rate_formula [OF ab example_cosmo_keys(3,1,2), of 1] ab show ?thesis
    by blast
qed




subsection \<open>Growth factor\<close>

text \<open>
  Claim C6. For a valid cosmology the normalised growth factor at redshift zero is 1.
  A valid cosmology is flat, \<open>omega_M_0 + omega_lambda_0 = 1\<close>, and the growth integral
  from 0 that the quadrature returns is not zero.
\<close>

theorem growthfactor_zero_normalised:
  assumes "cosmo ''omega_M_0'' = Some omega_M_0"
    and "cosmo ''omega_lambda_0'' = Some omega_lambda_0"
    and "omega_M_0 + omega_lambda_0 = 1"
    and "quad ext (growth_integrand omega_M_0 omega_lambda_0) 0 zmax \<noteq> 0"
  shows "growthfactor ext 0 True cosmo = Inr 1"
  using assms growthfactor_Inr [OF assms(1,2) zmax_pos, of ext] by simp

theorem growthfactor_zero_normalised_witness:
  "example_cosmo ''omega_M_0'' = Some 0.275
   \<and> example_cosmo ''omega_lambda_0'' = Some 0.725
   \<and> (0.275 :: real) + 0.725 = 1
   \<and> quad example_ext (growth_integrand 0.275 0.725) 0 zmax \<noteq> 0
   \<and> growthfactor example_ext 0 True example_cosmo = Inr 1"
proof -
  have q: "quad example_ext (growth_integrand (11 / 40) (29 / 40)) 0 zmax \<noteq> 0"
    by (simp add: example_quad example_growth_integrand_0)
  have s: "(11 / 40 :: real) + 29 / 40 = 1" by simp
  from growthfactor_zero_normalised [OF example_cosmo_omega s q] q
  show ?thesis by (simp add: example_cosmo_omega)
qed

subsection \<open>Concentration solver\<close>







lemma isclose_bracket: "2 \<le> c \<Longrightarrow> \<not> isclose c 0"
  by (simp add: isclose_def)









lemma example_brentq: "brentq example_ext f a b = Inr a"
  by (simp add: example_ext_def)



subsection \<open>The rows of the table\<close>

lemma np_zeros_shape:
  "length (np_zeros lenm lenzout mah com) = lenm"
  "r < lenm \<Longrightarrow> np_zeros lenm lenzout mah com ! r = replicate lenzout (zero_row mah com)"
  by (simp_all add: np_zeros_def)

lemma targets_below:
  assumes "zval < zmax" and "\<forall>zs. z = Some zs \<longrightarrow> (\<forall>x\<in>set zs. x < zmax)"
  shows "\<forall>x\<in>set (targets z zval). x < zmax"
  using assms by (cases z) (auto simp: targets_def)


lemma run_returns_table:
  assumes "com \<or> mah"
    and "checkinput zi0 Mi0 z0 = Checked zi Mi z lenz lenm lenzout"
    and "getcosmo ext cg h cosmology = (h', Inr a)"
    and "(h' ! a) ''omega_M_0'' = Some om" and "(h' ! a) ''omega_lambda_0'' = Some ol"
    and "(h' ! a) ''h'' = Some hub"
    and "\<forall>x\<in>set zi. x < zmax"
    and "com \<longrightarrow> (\<exists>A. (h' ! a) ''A_scaling'' = Some A)
           \<and> (\<forall>f. \<exists>c. brentq ext f 2 1000 = Inr c)
           \<and> (\<forall>zs. z = Some zs \<longrightarrow> (\<forall>x\<in>set zs. x < zmax))"
  shows "\<exists>ds. run ext cg h cosmology zi0 Mi0 z0 com mah retcosmo
           = (h', Inr (if retcosmo then DatasetCosmo ds a else Dataset ds))"
proof -
  note ck = checkinput_Checked [OF assms(2)]
  let ?samples = "izip zi Mi"
  let ?ds0 = "np_zeros lenm lenzout mah com"
  have s: "\<forall>s\<in>set ?samples. fst s < zmax"
    using assms(7) by (auto simp: izip_zip dest: set_zip_leftD)
  have c: "mah \<and> \<not> com \<or>
         (\<exists>A. (h' ! a) ''A_scaling'' = Some A) \<and> (\<forall>f. \<exists>c. brentq ext f 2 1000 = Inr c)
           \<and> (\<forall>s\<in>set ?samples. \<forall>x\<in>set (targets z (fst s)). x < zmax)"
  proof (cases com)
    case True
    with assms(8) have t: "\<forall>zs. z = Some zs \<longrightarrow> (\<forall>x\<in>set zs. x < zmax)" by blast
    have "\<forall>s\<in>set ?samples. \<forall>x\<in>set (targets z (fst s)). x < zmax"
      using s targets_below [OF _ t] by blast
    with True assms(8) show ?thesis by blast
  next
    case False
    with assms(1) show ?thesis by simp
  qed
  have l: "0 + length ?samples \<le> length ?ds0"
    using ck by (simp add: izip_zip np_zeros_shape)
  have r: "\<forall>r<length ?ds0. \<forall>s\<in>set ?samples. length (targets z (fst s)) \<le> length (?ds0 ! r)"
    using ck length_targets [of z] by (simp add: np_zeros_shape)
  from run_loop_total [OF assms(4-6) s c l r] obtain ds where
    "run_loop ext (h' ! a) mah com z 0 ?samples ?ds0 = Inr ds"
    by blast
  with assms(1-3) show ?thesis
    by (auto simp: run_def Let_def)
qed

lemma example_cosmo_store: "[example_cosmo] ! 0 = example_cosmo"
  by simp



subsection \<open>The mass that the concentration solver is given\<close>

lemma run_com_rows:
  assumes "run ext cg h cosmology zi0 Mi0 z0 com mah retcosmo = (h', Inr res)"
    and "res \<noteq> Minus1" and "com"
    and "checkinput zi0 Mi0 z0 = Checked zi Mi z lenz lenm lenzout"
    and "getcosmo ext cg h cosmology = (h'', Inr a)"
    and "i < length (izip zi Mi)" and "izip zi Mi ! i = (zval, Mval)"
  shows "\<exists>dMdt Mz c sig nu zf.
           MAH ext (targets z zval) zval Mval (h' ! a) = Inr (dMdt, Mz)
           \<and> COM ext (targets z zval) Mz (h' ! a) = Inr (c, sig, nu, zf)
           \<and> (\<forall>j<length (targets z zval).
                 table res ! i ! j =
                   (if mah then
                      RowBoth zval Mval (targets z zval ! j) (dMdt ! j) (Mz ! j)
                        (c ! j) (sig ! j) (nu ! j) (zf ! j)
                    else
                      RowCom zval Mval (targets z zval ! j)
                        (c ! j) (sig ! j) (nu ! j) (zf ! j)))"
proof -
  from run_Inr [OF assms(1,2)] assms(4,5) obtain ds where
    l: "run_loop ext (h' ! a) mah com z 0 (izip zi Mi) (np_zeros lenm lenzout mah com)
              = Inr ds"
    and res: "res = (if retcosmo then DatasetCosmo ds a else Dataset ds)"
    by auto
  have t: "table res = ds" using res by simp
  let ?zt = "targets z zval"
  from run_loop_rows [OF l] assms(6,7) obtain d1 d2 where
    d: "run_sample ext (h' ! a) mah com z i zval Mval d1 = Inr d2" "d2 ! i = ds ! i"
    by fastforce
  show ?thesis
  proof (cases "?zt = []")
    case True
    then show ?thesis by (simp add: COM_def)
  next
    case False
    from run_sample_rows [OF d(1) False] assms(3) d(2) t show ?thesis
      by auto
  qed
qed

lemma COM_row_sig:
  assumes "\<forall>f r. brentq ext f 2 1000 = Inr r \<longrightarrow> 2 \<le> r \<and> r \<le> 1000"
    and "COM_row ext cosmo zval Mval = Inr (c, sig, nu, zf)"
  shows "sig = sigma_r ext (mass_to_radius ext Mval cosmo) 0 cosmo"
proof -
  from assms(2) obtain a b A om ol r where
    r: "brentq ext (\<lambda>c. minimize_c c zval a b A om ol) 2 1000 = Inr r"
    and v: "isclose r 0 \<or> sig = sigma_r ext (mass_to_radius ext Mval cosmo) 0 cosmo"
    by (auto simp: COM_row_def Let_def split: sum.splits option.splits prod.splits if_splits)
  from assms(1) r have "2 \<le> r" by blast
  then have "\<not> isclose r 0" by (rule isclose_bracket)
  with v show ?thesis by simp
qed

lemma example_contract: "\<forall>f r. brentq example_ext f 2 1000 = Inr r \<longrightarrow> 2 \<le> r \<and> r \<le> 1000"
  by (simp add: example_brentq)

lemma example_brentq_returns: "\<exists>c. brentq example_ext f 2 1000 = Inr c"
  by (simp add: example_brentq)

lemma example_sigma: "sigma_r example_ext (mass_to_radius example_ext M cosmo) 0 cosmo = 1 / M"
  by (simp add: example_ext_def)

lemma example_mass_at_1:
  assumes "acc_rate example_ext 1 0 (10 ^ 12) example_cosmo = Inr (dMdt, Mz)"
  shows "Mz < 10 ^ 12"
proof -
  let ?f = "sigma_gap example_ext (10 ^ 12) example_cosmo powr (- 0.5)"
  let ?a = "(sqrt (2 / pi) * 1.686 * (- (47 / 80)) / 1 ^ 2 + 1) * ?f"
  let ?b = "- ?f"
  have ab: "calc_ab example_ext 0 (10 ^ 12) example_cosmo = Inr (?a, ?b)"
    using calc_ab_Inr [OF example_deriv_growth_0 example_growthfactor_0] .
  from calc_ab_indices [OF ab example_deriv_growth_0] have s: "?a + ?b \<le> 0" by simp
  have "0 < ?f" using example_sigma_gap by simp
  then have b: "?b < 0" by simp
  have "(1 + 1) powr ?a * exp (?b * 1) < (1 :: real)"
    using b s by (intro mass_factor_strict) simp_all
  then have "10 ^ 12 * ((1 + 1) powr ?a * exp (?b * 1)) < (10 ^ 12 :: real) * 1"
    by (intro mult_strict_left_mono) simp_all
  moreover from acc_rate_Inr [OF ab example_cosmo_keys(3,1,2), of 1] assms
  have "Mz = 10 ^ 12 * (1 + 1 - 0) powr ?a * exp (?b * (1 - 0))"
    by simp
  ultimately show ?thesis by (simp add: mult.assoc)
qed

lemma example_run_com_only:
  "\<exists>ds. run example_ext example_cg [map_of example_params] (Params 0)
          (Scalar 0) (Scalar (10 ^ 12)) (Some (Seq [1])) True False False
        = ([example_cosmo], Inr (Dataset ds))"
proof -
  have ck: "checkinput (Scalar 0) (Scalar (10 ^ 12)) (Some (Seq [1]))
              = Checked [0] [10 ^ 12] (Some [1]) 1 1 1"
    by (simp add: checkinput_def checkinput_z_def)
  have k: "([example_cosmo] ! 0) ''omega_M_0'' = Some 0.275"
      "([example_cosmo] ! 0) ''omega_lambda_0'' = Some 0.725"
      "([example_cosmo] ! 0) ''h'' = Some 0.702"
    using example_cosmo_keys by simp_all
  have A: "\<exists>A. ([example_cosmo] ! 0) ''A_scaling'' = Some A"
    using example_cosmo_keys(4) by (simp only: example_cosmo_store) blast
  have zs: "\<forall>zs. Some [1 :: real] = Some zs \<longrightarrow> (\<forall>x\<in>set zs. x < zmax)"
    by (simp add: zmax_def)
  have cc: "True \<longrightarrow> (\<exists>A. ([example_cosmo] ! 0) ''A_scaling'' = Some A)
           \<and> (\<forall>f. \<exists>c. brentq example_ext f 2 1000 = Inr c)
           \<and> (\<forall>zs. Some [1 :: real] = Some zs \<longrightarrow> (\<forall>x\<in>set zs. x < zmax))"
    using A example_brentq_returns zs by blast
  have z0: "\<forall>x\<in>set [0 :: real]. x < zmax" by (simp add: zmax_def)
  show ?thesis
    using run_returns_table [where com = True and mah = False and retcosmo = False,
        OF _ ck getcosmo_example k z0 cc]
    by simp
qed

text \<open>
  Claim C1, amended. With \<^verbatim>\<open>com=True\<close>, whether \<^verbatim>\<open>mah\<close> is selected or not, the
  concentration solver is called for each sample with the target redshifts and with the
  mass history \<^verbatim>\<open>Mz\<close> that \<^verbatim>\<open>MAH\<close> returns for them: \<^verbatim>\<open>run\<close> computes the MAH block for
  every sample before it looks at the flags, and the rows of the table hold the values of
  \<^verbatim>\<open>COM(ztemp, Mz)\<close>.
\<close>

theorem run_com_on_evolved_mass:
  assumes "run ext cg h cosmology zi0 Mi0 z0 com mah retcosmo = (h', Inr res)"
    and "res \<noteq> Minus1" and "com"
    and "checkinput zi0 Mi0 z0 = Checked zi Mi z lenz lenm lenzout"
    and "getcosmo ext cg h cosmology = (h'', Inr a)"
    and "i < length (izip zi Mi)" and "izip zi Mi ! i = (zval, Mval)"
  shows "\<exists>dMdt Mz c sig nu zf.
           MAH ext (targets z zval) zval Mval (h' ! a) = Inr (dMdt, Mz)
           \<and> COM ext (targets z zval) Mz (h' ! a) = Inr (c, sig, nu, zf)
           \<and> (\<forall>j<length (targets z zval).
                 table res ! i ! j =
                   (if mah then
                      RowBoth zval Mval (targets z zval ! j) (dMdt ! j) (Mz ! j)
                        (c ! j) (sig ! j) (nu ! j) (zf ! j)
                    else
                      RowCom zval Mval (targets z zval ! j)
                        (c ! j) (sig ! j) (nu ! j) (zf ! j)))"
  using assms by (rule run_com_rows)

theorem run_com_on_evolved_mass_witness:
  "\<exists>h' res dMdt Mz c sig nu zf.
      run example_ext example_cg [map_of example_params] (Params 0)
          (Scalar 0) (Scalar (10 ^ 12)) (Some (Seq [1])) True False False
        = (h', Inr res)
      \<and> res \<noteq> Minus1
      \<and> MAH example_ext [1] 0 (10 ^ 12) example_cosmo = Inr (dMdt, Mz)
      \<and> COM example_ext [1] Mz example_cosmo = Inr (c, sig, nu, zf)
      \<and> table res ! 0 ! 0 = RowCom 0 (10 ^ 12) 1 (c ! 0) (sig ! 0) (nu ! 0) (zf ! 0)
      \<and> Mz ! 0 < 10 ^ 12"
proof -
  let ?run = "run example_ext example_cg [map_of example_params] (Params 0)
                  (Scalar 0) (Scalar (10 ^ 12)) (Some (Seq [1])) True False False"
  have ck: "checkinput (Scalar 0) (Scalar (10 ^ 12)) (Some (Seq [1]))
              = Checked [0] [10 ^ 12] (Some [1]) 1 1 1"
    by (simp add: checkinput_def checkinput_z_def)
  from example_run_com_only obtain ds where r: "?run = ([example_cosmo], Inr (Dataset ds))"
    by blast
  have t: "targets (Some [1]) 0 = [1]" by (simp add: targets_def)
  from run_com_on_evolved_mass [OF r _ _ ck getcosmo_example, of 0 0 "10 ^ 12"]
  obtain dMdt Mz c sig nu zf where
    m: "MAH example_ext [1] 0 (10 ^ 12) example_cosmo = Inr (dMdt, Mz)"
    and co: "COM example_ext [1] Mz example_cosmo = Inr (c, sig, nu, zf)"
    and row: "ds ! 0 ! 0 = RowCom 0 (10 ^ 12) 1 (c ! 0) (sig ! 0) (nu ! 0) (zf ! 0)"
    by (auto simp: t)
  from MAH_Inr [OF m] have
    "acc_rate example_ext 1 0 (10 ^ 12) example_cosmo = Inr (dMdt ! 0, Mz ! 0)"
    by simp
  then have "Mz ! 0 < 10 ^ 12" by (rule example_mass_at_1)
  with r m co row show ?thesis by auto
qed

text \<open>
  The claim as it was stated has the COM-only mode use the original mass. For one halo of
  mass \<^verbatim>\<open>1e12\<close> at redshift 0 and the output redshift 1, the solver on the original mass
  returns, \<^verbatim>\<open>run\<close> returns a table, and the row of the table is not the one of that call:
  the mass variance in it is the one of the smaller mass \<^verbatim>\<open>Mz\<close>.
\<close>

theorem run_com_only_counterexample:
  "(\<exists>c sig nu zf. COM_on_Mi example_ext [1] (10 ^ 12) example_cosmo = Inr (c, sig, nu, zf))
   \<and> (\<exists>ds. snd (run example_ext example_cg [map_of example_params] (Params 0)
                  (Scalar 0) (Scalar (10 ^ 12)) (Some (Seq [1])) True False False)
              = Inr (Dataset ds))
   \<and> \<not> (\<exists>c sig nu zf.
          COM_on_Mi example_ext [1] (10 ^ 12) example_cosmo = Inr (c, sig, nu, zf)
          \<and> snd (run example_ext example_cg [map_of example_params] (Params 0)
                  (Scalar 0) (Scalar (10 ^ 12)) (Some (Seq [1])) True False False)
              = Inr (Dataset [[RowCom 0 (10 ^ 12) 1 (c ! 0) (sig ! 0) (nu ! 0) (zf ! 0)]]))"
proof -
  let ?run = "run example_ext example_cg [map_of example_params] (Params 0)
                  (Scalar 0) (Scalar (10 ^ 12)) (Some (Seq [1])) True False False"
  have z1: "\<forall>x\<in>set [1 :: real]. x < zmax" by (simp add: zmax_def)
  have 1: "\<exists>c sig nu zf. COM_on_Mi example_ext [1] (10 ^ 12) example_cosmo = Inr (c, sig, nu, zf)"
    unfolding COM_on_Mi_def
    using COM_total [OF example_cosmo_keys(1,2,4) example_brentq_returns z1] .
  have ck: "checkinput (Scalar 0) (Scalar (10 ^ 12)) (Some (Seq [1]))
              = Checked [0] [10 ^ 12] (Some [1]) 1 1 1"
    by (simp add: checkinput_def checkinput_z_def)
  from example_run_com_only obtain ds where r: "?run = ([example_cosmo], Inr (Dataset ds))"
    by blast
  have 2: "\<exists>ds. snd ?run = Inr (Dataset ds)" using r by simp
  have t: "targets (Some [1]) 0 = [1]" by (simp add: targets_def)
  from run_com_rows [OF r _ _ ck getcosmo_example, of 0 0 "10 ^ 12"]
  obtain dMdt Mz c' sig' nu' zf' where
    m: "MAH example_ext [1] 0 (10 ^ 12) example_cosmo = Inr (dMdt, Mz)"
    and co: "COM example_ext [1] Mz example_cosmo = Inr (c', sig', nu', zf')"
    and row: "ds ! 0 ! 0 = RowCom 0 (10 ^ 12) 1 (c' ! 0) (sig' ! 0) (nu' ! 0) (zf' ! 0)"
    by (auto simp: t)
  from MAH_Inr [OF m] have
    len: "length Mz = length [1 :: real]"
    and acc: "acc_rate example_ext 1 0 (10 ^ 12) example_cosmo = Inr (dMdt ! 0, Mz ! 0)"
    by simp_all
  from COM_Inr [OF co len] have
    "COM_row example_ext example_cosmo 1 (Mz ! 0) = Inr (c' ! 0, sig' ! 0, nu' ! 0, zf' ! 0)"
    by simp
  from COM_row_sig [OF example_contract this] have s': "sig' ! 0 = 1 / Mz ! 0"
    by (simp add: example_sigma)
  have lt: "Mz ! 0 < 10 ^ 12" using example_mass_at_1 [OF acc] .
  have ne: "sig' ! 0 \<noteq> 1 / 10 ^ 12"
    using s' lt by (simp add: field_simps)
  have 3: False
    if h: "COM_on_Mi example_ext [1] (10 ^ 12) example_cosmo = Inr (c, sig, nu, zf)"
      and e: "snd ?run
                = Inr (Dataset [[RowCom 0 (10 ^ 12) 1 (c ! 0) (sig ! 0) (nu ! 0) (zf ! 0)]])"
    for c sig nu zf
  proof -
    from h have co2: "COM example_ext [1] [10 ^ 12] example_cosmo = Inr (c, sig, nu, zf)"
      by (simp add: COM_on_Mi_def)
    from COM_Inr [OF co2] have
      "COM_row example_ext example_cosmo 1 (10 ^ 12) = Inr (c ! 0, sig ! 0, nu ! 0, zf ! 0)"
      by simp
    from COM_row_sig [OF example_contract this] have s: "sig ! 0 = 1 / 10 ^ 12"
      by (simp add: example_sigma)
    from e r have "ds = [[RowCom 0 (10 ^ 12) 1 (c ! 0) (sig ! 0) (nu ! 0) (zf ! 0)]]"
      by simp
    with row have "sig' ! 0 = sig ! 0" by simp
    with s ne show False by simp
  qed
  from 1 2 3 show ?thesis by blast
qed

subsection \<open>The cosmology dictionary\<close>










end
